theory Spec2Isabelle
  imports Complex_Main
begin

section \<open>Python values, exceptions and the trace of a run\<close>

text \<open>
  The vector-store router of \<^verbatim>\<open>vectordb/vector_stores.py\<close> is glue code around third-party
  libraries (weaviate, chromadb, llama_index) and around four helpers of the repository's own
  \<^verbatim>\<open>utils\<close> package (\<^verbatim>\<open>now\<close>, \<^verbatim>\<open>get_elapsed\<close>, \<^verbatim>\<open>log\<close>, \<^verbatim>\<open>get_model_config\<close>) whose code is
  not part of the sources.  The model keeps the router's own control flow and data flow exactly
  and leaves every such collaborator open:

  \<^item> an object a library hands back is an opaque value \<open>Opaque n\<close>;
  \<^item> every library call is answered by an oracle \<open>L\<close>, a function of the run's history and of
    the call with its arguments, which either raises (\<open>Inl\<close>) or returns a value (\<open>Inr\<close>); all
    theorems quantify over \<open>L\<close>, so they hold however the libraries and services behave;
  \<^item> every call and its outcome is appended to the trace, so that "which client was built, for
    which index, in which order" are statements about the trace.
\<close>

datatype obj = PyNone | PyStr string | Opaque nat

datatype exn = UnboundLocalError string | AttributeError string | LibraryError nat

datatype cls = BaseVectorStore | Weaviate | ChromaDB

text \<open>
  The calls that leave the module, named after the Python they stand for.  A method call
  \<^verbatim>\<open>o.m(args)\<close> is one call with the receiver as first argument; \<open>Getattr o a\<close> reads the
  attribute \<^verbatim>\<open>o.a\<close>; \<open>Getitem d k\<close> is \<^verbatim>\<open>d[k]\<close>.
\<close>

datatype call =
    Now
  | Get_elapsed obj
  | HuggingFaceLLM string string
  | OpenAI string string
  | HuggingFaceEmbedding string
  | OpenAIEmbedding string
  | ServiceContext_from_defaults obj obj
  | Set_global_service_context obj
  | To_dict obj
  | Getitem obj string
  | Dict_get obj string
  | Getattr obj string
  | Weaviate_Client string
  | WeaviateVectorStore obj "string option"
  | Chromadb_HttpClient "string option" "string option"
  | Get_or_create_collection obj "string option"
  | ChromaVectorStore obj
  | StorageContext_from_defaults obj
  | VectorStoreIndex_from_documents obj obj
  | VectorStoreIndex_from_vector_store obj
  | Persist obj
  | As_query_engine obj
  | Query obj string

text \<open>
  Besides the library calls with their outcomes, the trace records when a backend entry point
  (\<^verbatim>\<open>Weaviate.vectorize_docs\<close>, \<^verbatim>\<open>ChromaDB.process_query\<close>, ...) is entered and when it returns
  normally.  These two markers are instrumentation: they do not change what is computed.
\<close>

datatype event =
    Called call "exn + obj"
  | Entered cls string
  | Returned cls string

text \<open>A formatted log message, kept symbolic: literal text and formatted values.\<close>

datatype fpart = Lit string | Fmt obj | FmtList "string list"

record world =
  trace :: "event list"
  logged :: "fpart list list"

type_synonym library = "event list \<Rightarrow> call \<Rightarrow> exn + obj"

type_synonym 'a py = "world \<Rightarrow> (exn + 'a) \<times> world"

definition py_return :: "'a \<Rightarrow> 'a py" where
  "py_return x = (\<lambda>s. (Inr x, s))"

definition py_raise :: "exn \<Rightarrow> 'a py" where
  "py_raise e = (\<lambda>s. (Inl e, s))"

text \<open>Sequencing: an exception ends the computation; what was done before it stays done.\<close>

definition py_bind :: "'a py \<Rightarrow> ('a \<Rightarrow> 'b py) \<Rightarrow> 'b py" where
  "py_bind m f = (\<lambda>s. case m s of (Inl e, s') \<Rightarrow> (Inl e, s') | (Inr x, s') \<Rightarrow> f x s')"

definition lib :: "library \<Rightarrow> call \<Rightarrow> obj py" where
  "lib L c = (\<lambda>s. let r = L (trace s) c in (r, s\<lparr>trace := trace s @ [Called c r]\<rparr>))"

definition mark :: "event \<Rightarrow> unit py" where
  "mark ev = (\<lambda>s. (Inr (), s\<lparr>trace := trace s @ [ev]\<rparr>))"

text \<open>
  \<^verbatim>\<open>utils.logging.log\<close> is taken to append its message to the log output and to return.
\<close>

definition log_line :: "fpart list \<Rightarrow> unit py" where
  "log_line msg = (\<lambda>s. (Inr (), s\<lparr>logged := logged s @ [msg]\<rparr>))"

section \<open>Configuration and class attributes\<close>

text \<open>
  \<^verbatim>\<open>get_model_config()\<close> belongs to \<^verbatim>\<open>utils\<close>; the configuration it returns is a parameter.
  The fields are the ones the module reads: \<^verbatim>\<open>.rag.llm\<close>, \<^verbatim>\<open>.get_rag_embed_model()\<close> (each
  with \<^verbatim>\<open>.hub\<close> and \<^verbatim>\<open>.model\<close>) and \<^verbatim>\<open>.rag.vector_stores\<close>, the configured backend list.
\<close>

record hub_model =
  hub :: string
  model :: string

record model_config =
  rag_llm :: hub_model
  get_rag_embed_model :: hub_model
  rag_vector_stores :: "string list"

text \<open>
  The class bodies run once, when the module is imported, and read the process environment
  with \<^verbatim>\<open>os.environ.get\<close>, which yields \<^verbatim>\<open>None\<close> for a variable that is not set.  \<open>class_body\<close>
  is the attribute dictionary each class body creates; \<open>mro\<close> is the order in which Python
  searches the classes for an attribute (\<^verbatim>\<open>abc.ABC\<close> and \<^verbatim>\<open>object\<close> define none of the names
  read here).
\<close>

type_synonym environ = "string \<rightharpoonup> string"

definition class_body :: "environ \<Rightarrow> cls \<Rightarrow> (string \<rightharpoonup> string option)" where
  "class_body environ c =
     (case c of
        BaseVectorStore \<Rightarrow>
          [''LFAI_INDEX_NAME'' \<mapsto> environ ''LFAI_INDEX_NAME'',
           ''OPENAI_API_KEY'' \<mapsto> environ ''OPENAI_API_KEY'']
      | Weaviate \<Rightarrow>
          [''HOST'' \<mapsto> environ ''WEAVIATE_HOST'', ''PORT'' \<mapsto> environ ''WEAVIATE_PORT'']
      | ChromaDB \<Rightarrow>
          [''HOST'' \<mapsto> environ ''CHROMADB_HOST'', ''PORT'' \<mapsto> environ ''CHROMADB_PORT''])"

fun mro :: "cls \<Rightarrow> cls list" where
  "mro BaseVectorStore = [BaseVectorStore]"
| "mro Weaviate = [Weaviate, BaseVectorStore]"
| "mro ChromaDB = [ChromaDB, BaseVectorStore]"

definition class_attr :: "environ \<Rightarrow> cls \<Rightarrow> string \<Rightarrow> (string option) py" where
  "class_attr environ c name =
     (case List.map_filter (\<lambda>k. class_body environ k name) (mro c) of
        [] \<Rightarrow> py_raise (AttributeError name)
      | v # _ \<Rightarrow> py_return v)"

text \<open>What an f-string makes of a value that is a string or \<^verbatim>\<open>None\<close>.\<close>

fun format_opt :: "string option \<Rightarrow> string" where
  "format_opt None = ''None''"
| "format_opt (Some s) = s"

section \<open>\<^verbatim>\<open>set_rag_context\<close>\<close>

text \<open>
  \<^verbatim>\<open>llm_model_key\<close> is assigned in the two branches that know the hub only, so it is an
  optional value here; reading it unassigned raises \<^verbatim>\<open>UnboundLocalError\<close>.  In
  \<^verbatim>\<open>service_context_dict["llm"].get(llm_model_key)\<close> Python fetches the bound method before it
  evaluates the argument.
\<close>

definition set_rag_context :: "library \<Rightarrow> model_config \<Rightarrow> unit py" where
  "set_rag_context L cfg =
     (let rag_llm = model_config.rag_llm cfg;
          rag_embed_model = model_config.get_rag_embed_model cfg
      in
      py_bind
        (if hub rag_llm = ''huggingface'' then
           py_bind (lib L (HuggingFaceLLM (model rag_llm) (model rag_llm)))
             (\<lambda>llm. py_return (llm, Some ''model_name''))
         else if hub rag_llm = ''openai'' then
           py_bind (lib L (OpenAI (model rag_llm) (model rag_llm)))
             (\<lambda>llm. py_return (llm, Some ''model''))
         else py_return (PyNone, None))
        (\<lambda>(llm, llm_model_key).
      py_bind
        (if hub rag_embed_model = ''huggingface'' then
           lib L (HuggingFaceEmbedding (model rag_embed_model))
         else if hub rag_embed_model = ''openai'' then
           lib L (OpenAIEmbedding (model rag_embed_model))
         else py_return (PyStr ''local''))
        (\<lambda>embed_model.
      py_bind (lib L (ServiceContext_from_defaults llm embed_model)) (\<lambda>service_context.
      py_bind (lib L (Set_global_service_context service_context)) (\<lambda>_.
      py_bind (lib L (To_dict service_context)) (\<lambda>service_context_dict.
      py_bind (lib L (Getitem service_context_dict ''llm'')) (\<lambda>llm_dict1.
      py_bind (lib L (Dict_get llm_dict1 ''class_name'')) (\<lambda>llm_class_name.
      py_bind (lib L (Getitem service_context_dict ''llm'')) (\<lambda>llm_dict2.
      py_bind
        (case llm_model_key of
           None \<Rightarrow>
             py_bind (lib L (Getattr llm_dict2 ''get''))
               (\<lambda>_. py_raise (UnboundLocalError ''llm_model_key''))
         | Some key \<Rightarrow> lib L (Dict_get llm_dict2 key))
        (\<lambda>llm_model_name.
      py_bind (lib L (Getitem service_context_dict ''embed_model'')) (\<lambda>embed_dict1.
      py_bind (lib L (Dict_get embed_dict1 ''class_name'')) (\<lambda>embed_class_name.
      py_bind (lib L (Getitem service_context_dict ''embed_model'')) (\<lambda>embed_dict2.
      py_bind (lib L (Dict_get embed_dict2 ''model_name'')) (\<lambda>embed_model_name.
      py_bind (log_line [Lit ''llm: '', Fmt llm_class_name, Lit '':'', Fmt llm_model_name]) (\<lambda>_.
      py_bind
        (log_line [Lit ''embed_model: '', Fmt embed_class_name, Lit '':'', Fmt embed_model_name])
        (\<lambda>_.
      log_line [Lit ''service context: '', Fmt service_context_dict]))))))))))))))))"

section \<open>\<^verbatim>\<open>BaseVectorStore\<close>: the static helpers\<close>

definition index_from_docs :: "library \<Rightarrow> obj \<Rightarrow> obj \<Rightarrow> obj py" where
  "index_from_docs L docs storage_context =
     lib L (VectorStoreIndex_from_documents docs storage_context)"

definition index_from_vector_store :: "library \<Rightarrow> obj \<Rightarrow> obj py" where
  "index_from_vector_store L vector_store =
     lib L (VectorStoreIndex_from_vector_store vector_store)"

definition persist_index :: "library \<Rightarrow> obj \<Rightarrow> unit py" where
  "persist_index L index =
     py_bind (lib L (Getattr index ''storage_context'')) (\<lambda>storage_context.
     py_bind (lib L (Persist storage_context)) (\<lambda>_.
     py_return ()))"

definition query_index :: "library \<Rightarrow> obj \<Rightarrow> string \<Rightarrow> obj py" where
  "query_index L index query =
     py_bind (lib L (As_query_engine index)) (\<lambda>query_engine.
     py_bind (lib L (Query query_engine query)) (\<lambda>result.
     lib L (Getattr result ''response'')))"

section \<open>\<^verbatim>\<open>Weaviate\<close>\<close>

record answer =
  vector_store :: string
  response :: obj
  elapsed :: obj

definition Weaviate_get_client :: "library \<Rightarrow> environ \<Rightarrow> obj py" where
  "Weaviate_get_client L environ =
     py_bind (class_attr environ Weaviate ''HOST'') (\<lambda>host.
     py_bind (class_attr environ Weaviate ''PORT'') (\<lambda>port.
     lib L (Weaviate_Client (''http://'' @ format_opt host @ '':'' @ format_opt port))))"

definition Weaviate_get_vector_store :: "library \<Rightarrow> environ \<Rightarrow> string option \<Rightarrow> obj py" where
  "Weaviate_get_vector_store L environ index_name =
     py_bind (Weaviate_get_client L environ) (\<lambda>client.
     lib L (WeaviateVectorStore client index_name))"

definition Weaviate_get_storage_context :: "library \<Rightarrow> environ \<Rightarrow> string option \<Rightarrow> obj py" where
  "Weaviate_get_storage_context L environ index_name =
     py_bind (Weaviate_get_vector_store L environ index_name) (\<lambda>vector_store.
     lib L (StorageContext_from_defaults vector_store))"

definition Weaviate_vectorize_docs ::
  "library \<Rightarrow> environ \<Rightarrow> obj \<Rightarrow> string option \<Rightarrow> unit py" where
  "Weaviate_vectorize_docs L environ docs index_name =
     py_bind (mark (Entered Weaviate ''vectorize_docs'')) (\<lambda>_.
     py_bind
       (case index_name of
          None \<Rightarrow> class_attr environ Weaviate ''LFAI_INDEX_NAME''
        | Some n \<Rightarrow> py_return (Some n))
       (\<lambda>index_name.
     py_bind (Weaviate_get_storage_context L environ index_name) (\<lambda>storage_context.
     py_bind (index_from_docs L docs storage_context) (\<lambda>index.
     py_bind (persist_index L index) (\<lambda>_.
     mark (Returned Weaviate ''vectorize_docs''))))))"

definition Weaviate_process_query :: "library \<Rightarrow> environ \<Rightarrow> string \<Rightarrow> answer py" where
  "Weaviate_process_query L environ prompt =
     py_bind (mark (Entered Weaviate ''process_query'')) (\<lambda>_.
     py_bind (lib L Now) (\<lambda>start.
     py_bind (class_attr environ Weaviate ''LFAI_INDEX_NAME'') (\<lambda>index_name.
     py_bind (Weaviate_get_vector_store L environ index_name) (\<lambda>vector_store.
     py_bind (index_from_vector_store L vector_store) (\<lambda>index.
     py_bind (query_index L index prompt) (\<lambda>response.
     py_bind (lib L (Get_elapsed start)) (\<lambda>elapsed.
     py_bind (mark (Returned Weaviate ''process_query'')) (\<lambda>_.
     py_return \<lparr>vector_store = ''weaviate'', response = response, elapsed = elapsed\<rparr>))))))))"

section \<open>\<^verbatim>\<open>ChromaDB\<close>\<close>

definition ChromaDB_get_client :: "library \<Rightarrow> environ \<Rightarrow> obj py" where
  "ChromaDB_get_client L environ =
     py_bind (class_attr environ ChromaDB ''HOST'') (\<lambda>host.
     py_bind (class_attr environ ChromaDB ''PORT'') (\<lambda>port.
     lib L (Chromadb_HttpClient host port)))"

definition ChromaDB_get_vector_store :: "library \<Rightarrow> environ \<Rightarrow> string option \<Rightarrow> obj py" where
  "ChromaDB_get_vector_store L environ index_name =
     py_bind (ChromaDB_get_client L environ) (\<lambda>client.
     py_bind (lib L (Get_or_create_collection client index_name)) (\<lambda>chroma_collection.
     lib L (ChromaVectorStore chroma_collection)))"

definition ChromaDB_get_storage_context :: "library \<Rightarrow> environ \<Rightarrow> string option \<Rightarrow> obj py" where
  "ChromaDB_get_storage_context L environ index_name =
     py_bind (ChromaDB_get_vector_store L environ index_name) (\<lambda>vector_store.
     lib L (StorageContext_from_defaults vector_store))"

definition ChromaDB_vectorize_docs ::
  "library \<Rightarrow> environ \<Rightarrow> obj \<Rightarrow> string option \<Rightarrow> unit py" where
  "ChromaDB_vectorize_docs L environ docs index_name =
     py_bind (mark (Entered ChromaDB ''vectorize_docs'')) (\<lambda>_.
     py_bind
       (case index_name of
          None \<Rightarrow> class_attr environ ChromaDB ''LFAI_INDEX_NAME''
        | Some n \<Rightarrow> py_return (Some n))
       (\<lambda>index_name.
     py_bind (ChromaDB_get_storage_context L environ index_name) (\<lambda>storage_context.
     py_bind (index_from_docs L docs storage_context) (\<lambda>index.
     py_bind (persist_index L index) (\<lambda>_.
     mark (Returned ChromaDB ''vectorize_docs''))))))"

text \<open>The index name is read through \<^verbatim>\<open>Weaviate.LFAI_INDEX_NAME\<close>, as in the source.\<close>

definition ChromaDB_process_query :: "library \<Rightarrow> environ \<Rightarrow> string \<Rightarrow> answer py" where
  "ChromaDB_process_query L environ prompt =
     py_bind (mark (Entered ChromaDB ''process_query'')) (\<lambda>_.
     py_bind (lib L Now) (\<lambda>start.
     py_bind (class_attr environ Weaviate ''LFAI_INDEX_NAME'') (\<lambda>index_name.
     py_bind (ChromaDB_get_vector_store L environ index_name) (\<lambda>vector_store.
     py_bind (index_from_vector_store L vector_store) (\<lambda>index.
     py_bind (query_index L index prompt) (\<lambda>response.
     py_bind (lib L (Get_elapsed start)) (\<lambda>elapsed.
     py_bind (mark (Returned ChromaDB ''process_query'')) (\<lambda>_.
     py_return \<lparr>vector_store = ''chromadb'', response = response, elapsed = elapsed\<rparr>))))))))"

section \<open>\<^verbatim>\<open>LLamaIndex\<close>: the router\<close>

record query_result =
  prompt :: string
  vdbs_processed :: "string list"
  responses :: "answer list"
  elapsed :: obj

text \<open>
  The two local lists \<^verbatim>\<open>vdbs_processed\<close> and \<^verbatim>\<open>responses\<close> are threaded through the two
  \<^verbatim>\<open>if\<close> statements; \<^verbatim>\<open>x in vdbs\<close> on a list of strings is membership.
\<close>

definition process_query ::
  "library \<Rightarrow> environ \<Rightarrow> model_config \<Rightarrow> string \<Rightarrow> query_result py" where
  "process_query L environ cfg = (\<lambda>prompt.
     py_bind (set_rag_context L cfg) (\<lambda>_.
     py_bind (lib L Now) (\<lambda>start.
     (let vdbs = rag_vector_stores cfg in
      py_bind
        (if ''weaviate'' \<in> set vdbs then
           py_bind (Weaviate_process_query L environ prompt)
             (\<lambda>response. py_return ([] @ [''weaviate''], [] @ [response]))
         else py_return ([], []))
        (\<lambda>(vdbs_processed, responses).
      py_bind
        (if ''chromadb'' \<in> set vdbs then
           py_bind (ChromaDB_process_query L environ prompt)
             (\<lambda>response. py_return (vdbs_processed @ [''chromadb''], responses @ [response]))
         else py_return (vdbs_processed, responses))
        (\<lambda>(vdbs_processed, responses).
      py_bind (lib L (Get_elapsed start)) (\<lambda>elapsed.
      py_return
        \<lparr>prompt = prompt, vdbs_processed = vdbs_processed, responses = responses,
         elapsed = elapsed\<rparr>)))))))"

definition vectorize_docs ::
  "library \<Rightarrow> environ \<Rightarrow> model_config \<Rightarrow> obj \<Rightarrow> string list \<Rightarrow> (string list) py" where
  "vectorize_docs L environ cfg docs vdbs =
     py_bind (set_rag_context L cfg) (\<lambda>_.
     py_bind (log_line [Lit ''vdbs: '', FmtList vdbs]) (\<lambda>_.
     py_bind
       (if ''weaviate'' \<in> set vdbs then
          py_bind (Weaviate_vectorize_docs L environ docs None)
            (\<lambda>_. py_return ([] @ [''weaviate'']))
        else py_return [])
       (\<lambda>vdbs_processed.
     py_bind
       (if ''chromadb'' \<in> set vdbs then
          py_bind (ChromaDB_vectorize_docs L environ docs None)
            (\<lambda>_. py_return (vdbs_processed @ [''chromadb'']))
        else py_return vdbs_processed)
       (\<lambda>vdbs_processed.
     py_bind (log_line [Lit ''vdbs processed: '', FmtList vdbs_processed]) (\<lambda>_.
     py_return vdbs_processed)))))"

section \<open>The request and response schemas of \<^verbatim>\<open>backends/openai/types.py\<close>\<close>

text \<open>
  The schema classes are pydantic models: a list of fields, each required or with a default.
  \<open>construct\<close> is what \<^verbatim>\<open>BaseModel.__init__(**kwargs)\<close> does as far as defaults go: a field
  takes the keyword argument of its name, else its default, and a required field that was not
  given is a validation error.  The validation of the values against the declared types is not
  modelled; the arguments are taken to be of the declared types.
\<close>

datatype pyval =
    VNone
  | VBool bool
  | VInt int
  | VFloat real
  | VStr string
  | VList "pyval list"
  | VModel "(string \<times> pyval) list"

datatype field_default = Required | Default pyval

datatype validation_error = Missing string

type_synonym schema = "(string \<times> field_default) list"

fun construct :: "schema \<Rightarrow> (string \<rightharpoonup> pyval) \<Rightarrow> validation_error + (string \<times> pyval) list" where
  "construct [] kwargs = Inr []"
| "construct ((name, d) # fs) kwargs =
     (case (case kwargs name of
              Some v \<Rightarrow> Inr v
            | None \<Rightarrow> (case d of Required \<Rightarrow> Inl (Missing name) | Default v \<Rightarrow> Inr v)) of
        Inl e \<Rightarrow> Inl e
      | Inr v \<Rightarrow>
          (case construct fs kwargs of
             Inl e \<Rightarrow> Inl e
           | Inr rest \<Rightarrow> Inr ((name, v) # rest)))"

definition CompletionRequest :: schema where
  "CompletionRequest =
     [(''model'', Required),
      (''prompt'', Required),
      (''stream'', Default (VBool False)),
      (''max_new_tokens'', Default (VInt 16)),
      (''temperature'', Default (VFloat 1.0))]"

definition ChatCompletionRequest :: schema where
  "ChatCompletionRequest =
     [(''model'', Required),
      (''messages'', Required),
      (''functions'', Default VNone),
      (''temperature'', Default (VFloat 1.0)),
      (''stream'', Default (VBool False)),
      (''stop'', Default VNone),
      (''max_tokens'', Default (VInt 128))]"

definition ModelResponseModel :: schema where
  "ModelResponseModel =
     [(''id'', Required),
      (''object'', Default (VStr ''model'')),
      (''created'', Default (VInt 0)),
      (''owned_by'', Default (VStr ''leapfrogai''))]"

definition ModelResponse :: schema where
  "ModelResponse =
     [(''object'', Default (VStr ''list'')),
      (''data'', Default (VList []))]"

section \<open>Observing a run\<close>

text \<open>The events a computation adds to the trace when it is run from the world \<open>s\<close>.\<close>

definition new_events :: "'a py \<Rightarrow> world \<Rightarrow> event list" where
  "new_events m s = drop (length (trace s)) (trace (snd (m s)))"

text \<open>The backend entry points entered, and those that returned, in the order of the trace.\<close>

fun entry :: "event \<Rightarrow> (cls \<times> string) list" where
  "entry (Entered c n) = [(c, n)]"
| "entry _ = []"

fun exit :: "event \<Rightarrow> (cls \<times> string) list" where
  "exit (Returned c n) = [(c, n)]"
| "exit _ = []"

definition entered :: "event list \<Rightarrow> (cls \<times> string) list" where
  "entered evs = concat (map entry evs)"

definition returned :: "event list \<Rightarrow> (cls \<times> string) list" where
  "returned evs = concat (map exit evs)"

text \<open>The URLs of the weaviate clients built, and the host and port of the chromadb clients.\<close>

fun weaviate_url :: "event \<Rightarrow> string list" where
  "weaviate_url (Called (Weaviate_Client url) r) = [url]"
| "weaviate_url _ = []"

fun chromadb_target :: "event \<Rightarrow> (string option \<times> string option) list" where
  "chromadb_target (Called (Chromadb_HttpClient h p) r) = [(h, p)]"
| "chromadb_target _ = []"

definition weaviate_urls :: "event list \<Rightarrow> string list" where
  "weaviate_urls evs = concat (map weaviate_url evs)"

definition chromadb_targets :: "event list \<Rightarrow> (string option \<times> string option) list" where
  "chromadb_targets evs = concat (map chromadb_target evs)"

text \<open>
  The index names handed to a backend's vector-store lookup: the \<^verbatim>\<open>index_name\<close> of
  \<^verbatim>\<open>WeaviateVectorStore(...)\<close> and the argument of \<^verbatim>\<open>client.get_or_create_collection(...)\<close>.
\<close>

fun index_name_of :: "event \<Rightarrow> string option list" where
  "index_name_of (Called (WeaviateVectorStore client i) r) = [i]"
| "index_name_of (Called (Get_or_create_collection client i) r) = [i]"
| "index_name_of _ = []"

definition index_names :: "event list \<Rightarrow> string option list" where
  "index_names evs = concat (map index_name_of evs)"

text \<open>The document batches handed to \<^verbatim>\<open>VectorStoreIndex.from_documents\<close>.\<close>

fun indexed_batch :: "event \<Rightarrow> obj list" where
  "indexed_batch (Called (VectorStoreIndex_from_documents docs sc) r) = [docs]"
| "indexed_batch _ = []"

definition indexed_batches :: "event list \<Rightarrow> obj list" where
  "indexed_batches evs = concat (map indexed_batch evs)"

text \<open>
  \<open>answered c label q seg a\<close>: the events \<open>seg\<close> are a complete run of the query entry point of
  the backend class \<open>c\<close> for the prompt \<open>q\<close>, and \<open>a\<close> is the answer it returns: \<open>a\<close> is labelled
  \<open>label\<close>, its response is what reading \<^verbatim>\<open>.response\<close> of this run's query result gave, and its
  elapsed time is what \<^verbatim>\<open>get_elapsed\<close> gave for the start time this run took itself.
\<close>

definition answered :: "cls \<Rightarrow> string \<Rightarrow> string \<Rightarrow> event list \<Rightarrow> answer \<Rightarrow> bool" where
  "answered c label q seg a \<longleftrightarrow>
     (\<exists>start setup store index engine result.
        seg = [Entered c ''process_query'', Called Now (Inr start)] @ setup @
              [Called (VectorStoreIndex_from_vector_store store) (Inr index),
               Called (As_query_engine index) (Inr engine),
               Called (Query engine q) (Inr result),
               Called (Getattr result ''response'') (Inr (response a)),
               Called (Get_elapsed start) (Inr (answer.elapsed a)),
               Returned c ''process_query''] \<and>
        entered setup = [] \<and> returned setup = [] \<and>
        vector_store a = label)"

section \<open>Properties of computations used in the proofs\<close>

text \<open>A library call that raises is the last event, and its exception is the result.\<close>

definition fail_stop :: "'a py \<Rightarrow> bool" where
  "fail_stop m \<longleftrightarrow>
     (\<forall>s. \<exists>evs. trace (snd (m s)) = trace s @ evs \<and>
        (\<forall>i<length evs. \<forall>c e. evs ! i = Called c (Inl e) \<longrightarrow>
           Suc i = length evs \<and> fst (m s) = Inl e))"

text \<open>Run from worlds with the same trace, the two computations do and return the same.\<close>

definition same_run :: "'a py \<Rightarrow> 'a py \<Rightarrow> bool" where
  "same_run m m' \<longleftrightarrow>
     (\<forall>s t. trace s = trace t \<longrightarrow>
        fst (m s) = fst (m' t) \<and> trace (snd (m s)) = trace (snd (m' t)))"

text \<open>The computation returns normally from every world.\<close>

definition returns :: "'a py \<Rightarrow> bool" where
  "returns m \<longleftrightarrow> (\<forall>s. \<exists>x s'. m s = (Inr x, s'))"

text \<open>The library answers every call; no call raises.\<close>

definition answers :: "library \<Rightarrow> bool" where
  "answers L \<longleftrightarrow> (\<forall>tr c. \<exists>v. L tr c = Inr v)"

text \<open>
  What an observation \<open>\<phi>\<close> of the events shows of a run: exactly \<open>xs\<close> when the computation
  returns, and an initial part of \<open>xs\<close> when it raises.
\<close>

definition observes :: "(event \<Rightarrow> 'x list) \<Rightarrow> 'x list \<Rightarrow> 'a py \<Rightarrow> bool" where
  "observes \<phi> xs m \<longleftrightarrow>
     (\<forall>s. \<exists>evs. trace (snd (m s)) = trace s @ evs \<and>
        (case fst (m s) of
           Inr _ \<Rightarrow> concat (map \<phi> evs) = xs
         | Inl _ \<Rightarrow> (\<exists>k. concat (map \<phi> evs) = take k xs)))"

section \<open>Example inputs\<close>

text \<open>
  A library that answers every call with a fresh object, and one where the chromadb service
  is down; a world with nothing done yet; a configuration and an environment.
\<close>

definition lib_ok :: library where
  "lib_ok tr c = Inr (Opaque (length tr))"

definition lib_chromadb_down :: library where
  "lib_chromadb_down tr c =
     (case c of
        Chromadb_HttpClient h p \<Rightarrow> Inl (LibraryError 111)
      | _ \<Rightarrow> Inr (Opaque (length tr)))"

definition world0 :: world where
  "world0 = \<lparr>trace = [], logged = []\<rparr>"

definition config0 :: "string list \<Rightarrow> model_config" where
  "config0 vdbs =
     \<lparr>rag_llm = \<lparr>hub = ''openai'', model = ''gpt-3.5-turbo''\<rparr>,
      get_rag_embed_model = \<lparr>hub = ''huggingface'', model = ''bge-small''\<rparr>,
      rag_vector_stores = vdbs\<rparr>"

text \<open>A configuration whose language model hub is neither of the two the module names.\<close>

definition config_local :: "string list \<Rightarrow> model_config" where
  "config_local vdbs =
     \<lparr>rag_llm = \<lparr>hub = ''local'', model = ''llama''\<rparr>,
      get_rag_embed_model = \<lparr>hub = ''huggingface'', model = ''bge-small''\<rparr>,
      rag_vector_stores = vdbs\<rparr>"

definition environ0 :: environ where
  "environ0 =
     [''WEAVIATE_HOST'' \<mapsto> ''weaviate'', ''WEAVIATE_PORT'' \<mapsto> ''8080'',
      ''CHROMADB_HOST'' \<mapsto> ''chroma'', ''CHROMADB_PORT'' \<mapsto> ''8000'',
      ''LFAI_INDEX_NAME'' \<mapsto> ''Leapfrog'']"

section \<open>Basic facts about sequencing\<close>

lemma py_bind_Inr:
  "py_bind m f s = (Inr y, s') \<longleftrightarrow> (\<exists>x s1. m s = (Inr x, s1) \<and> f x s1 = (Inr y, s'))"
  by (auto simp: py_bind_def split: prod.splits sum.splits)

lemma py_return_Inr: "py_return x s = (Inr y, s') \<longleftrightarrow> y = x \<and> s' = s"
  by (auto simp: py_return_def)

lemma py_raise_Inr: "py_raise e s = (Inr y, s') \<longleftrightarrow> False"
  by (simp add: py_raise_def)

lemma lib_Inr:
  "lib L c s = (Inr y, s') \<longleftrightarrow>
     L (trace s) c = Inr y \<and> s' = s\<lparr>trace := trace s @ [Called c (Inr y)]\<rparr>"
  by (auto simp: lib_def Let_def)

lemma mark_Inr: "mark ev s = (Inr y, s') \<longleftrightarrow> s' = s\<lparr>trace := trace s @ [ev]\<rparr>"
  by (auto simp: mark_def)

lemma log_line_Inr: "log_line msg s = (Inr y, s') \<longleftrightarrow> s' = s\<lparr>logged := logged s @ [msg]\<rparr>"
  by (auto simp: log_line_def)

lemmas Inr_simps = py_bind_Inr py_return_Inr py_raise_Inr lib_Inr mark_Inr log_line_Inr

lemma py_bind_return: "py_bind (py_return x) f = f x"
  by (simp add: py_bind_def py_return_def)

lemma py_bind_assoc: "py_bind (py_bind m f) g = py_bind m (\<lambda>x. py_bind (f x) g)"
  by (auto simp: py_bind_def fun_eq_iff split: prod.splits sum.splits)

lemma class_attr_simps:
  "class_attr environ Weaviate ''HOST'' = py_return (environ ''WEAVIATE_HOST'')"
  "class_attr environ Weaviate ''PORT'' = py_return (environ ''WEAVIATE_PORT'')"
  "class_attr environ ChromaDB ''HOST'' = py_return (environ ''CHROMADB_HOST'')"
  "class_attr environ ChromaDB ''PORT'' = py_return (environ ''CHROMADB_PORT'')"
  "class_attr environ Weaviate ''LFAI_INDEX_NAME'' = py_return (environ ''LFAI_INDEX_NAME'')"
  "class_attr environ ChromaDB ''LFAI_INDEX_NAME'' = py_return (environ ''LFAI_INDEX_NAME'')"
  by (simp_all add: class_attr_def class_body_def List.map_filter_def)

lemmas backend_defs =
  Weaviate_vectorize_docs_def Weaviate_process_query_def Weaviate_get_storage_context_def
  Weaviate_get_vector_store_def Weaviate_get_client_def
  ChromaDB_vectorize_docs_def ChromaDB_process_query_def ChromaDB_get_storage_context_def
  ChromaDB_get_vector_store_def ChromaDB_get_client_def
  index_from_docs_def index_from_vector_store_def persist_index_def query_index_def
  option.case class_attr_simps

section \<open>Rules for the run properties\<close>

subsection \<open>Stopping at the first failure\<close>

lemma fail_stop_return: "fail_stop (py_return x)"
  by (simp add: fail_stop_def py_return_def)

lemma fail_stop_raise: "fail_stop (py_raise e)"
  by (simp add: fail_stop_def py_raise_def)

lemma fail_stop_log_line: "fail_stop (log_line msg)"
  by (simp add: fail_stop_def log_line_def)

lemma fail_stop_mark: "(\<And>c r. ev \<noteq> Called c r) \<Longrightarrow> fail_stop (mark ev)"
  by (simp add: fail_stop_def mark_def)

lemma fail_stop_lib: "fail_stop (lib L c)"
  by (simp add: fail_stop_def lib_def Let_def)

lemma fail_stop_bind:
  assumes "fail_stop m" and "\<And>x. fail_stop (f x)"
  shows "fail_stop (py_bind m f)"
  unfolding fail_stop_def
proof
  fix s
  from assms(1) obtain evs1 where e1: "trace (snd (m s)) = trace s @ evs1"
    and f1: "\<forall>i<length evs1. \<forall>c e. evs1 ! i = Called c (Inl e) \<longrightarrow>
               Suc i = length evs1 \<and> fst (m s) = Inl e"
    unfolding fail_stop_def by blast
  obtain r s1 where ms: "m s = (r, s1)" by (cases "m s")
  show "\<exists>evs. trace (snd (py_bind m f s)) = trace s @ evs \<and>
          (\<forall>i<length evs. \<forall>c e. evs ! i = Called c (Inl e) \<longrightarrow>
             Suc i = length evs \<and> fst (py_bind m f s) = Inl e)"
  proof (cases r)
    case (Inl e)
    with ms e1 f1 show ?thesis by (auto simp: py_bind_def)
  next
    case (Inr x)
    from assms(2)[of x] obtain evs2 where e2: "trace (snd (f x s1)) = trace s1 @ evs2"
      and f2: "\<forall>i<length evs2. \<forall>c e. evs2 ! i = Called c (Inl e) \<longrightarrow>
                 Suc i = length evs2 \<and> fst (f x s1) = Inl e"
      unfolding fail_stop_def by blast
    have quiet: "\<not> (i < length evs1 \<and> evs1 ! i = Called c (Inl e))" for i c e
      using f1 ms Inr by auto
    have bind: "py_bind m f s = f x s1"
      using ms Inr by (simp add: py_bind_def)
    have "\<forall>i<length (evs1 @ evs2). \<forall>c e. (evs1 @ evs2) ! i = Called c (Inl e) \<longrightarrow>
            Suc i = length (evs1 @ evs2) \<and> fst (f x s1) = Inl e"
    proof (intro allI impI)
      fix i c e
      assume i: "i < length (evs1 @ evs2)" and ev: "(evs1 @ evs2) ! i = Called c (Inl e)"
      show "Suc i = length (evs1 @ evs2) \<and> fst (f x s1) = Inl e"
      proof (cases "i < length evs1")
        case True
        with ev quiet[of i c e] show ?thesis by (simp add: nth_append)
      next
        case False
        then have j: "i - length evs1 < length evs2"
          using i by simp
        from False ev have "evs2 ! (i - length evs1) = Called c (Inl e)"
          by (simp add: nth_append)
        with f2 j have "Suc (i - length evs1) = length evs2 \<and> fst (f x s1) = Inl e"
          by blast
        with False show ?thesis by auto
      qed
    qed
    with bind e1 e2 ms show ?thesis by auto
  qed
qed

lemma fail_stop_if: "fail_stop a \<Longrightarrow> fail_stop b \<Longrightarrow> fail_stop (if c then a else b)"
  by simp

lemma fail_stop_case_prod: "(\<And>a b. fail_stop (f a b)) \<Longrightarrow> fail_stop (case_prod f p)"
  by (cases p) simp

lemma fail_stop_case_option:
  "fail_stop a \<Longrightarrow> (\<And>v. fail_stop (f v)) \<Longrightarrow> fail_stop (case_option a f x)"
  by (cases x) simp_all

lemmas fail_stop_intros =
  fail_stop_return fail_stop_raise fail_stop_log_line fail_stop_mark fail_stop_lib
  fail_stop_bind fail_stop_if fail_stop_case_prod fail_stop_case_option

subsection \<open>Independence of the log\<close>

lemma same_run_return: "same_run (py_return x) (py_return x)"
  by (simp add: same_run_def py_return_def)

lemma same_run_raise: "same_run (py_raise e) (py_raise e)"
  by (simp add: same_run_def py_raise_def)

lemma same_run_log_line: "same_run (log_line msg) (log_line msg')"
  by (simp add: same_run_def log_line_def)

lemma same_run_mark: "same_run (mark ev) (mark ev)"
  by (simp add: same_run_def mark_def)

lemma same_run_lib: "same_run (lib L c) (lib L c)"
  by (simp add: same_run_def lib_def Let_def)

lemma same_run_bind:
  assumes "same_run m m'" and "\<And>x. same_run (f x) (f' x)"
  shows "same_run (py_bind m f) (py_bind m' f')"
  unfolding same_run_def
proof (intro allI impI)
  fix s t :: world
  assume st: "trace s = trace t"
  obtain r s1 where ms: "m s = (r, s1)" by (cases "m s")
  obtain r' t1 where mt: "m' t = (r', t1)" by (cases "m' t")
  from assms(1) st ms mt have rr: "r = r'" and tt: "trace s1 = trace t1"
    unfolding same_run_def by force+
  show "fst (py_bind m f s) = fst (py_bind m' f' t) \<and>
        trace (snd (py_bind m f s)) = trace (snd (py_bind m' f' t))"
  proof (cases r)
    case (Inl e)
    with ms mt rr tt show ?thesis by (auto simp: py_bind_def)
  next
    case (Inr x)
    from assms(2)[of x] tt
    have "fst (f x s1) = fst (f' x t1) \<and> trace (snd (f x s1)) = trace (snd (f' x t1))"
      unfolding same_run_def by blast
    with ms mt rr Inr show ?thesis by (auto simp: py_bind_def)
  qed
qed

lemma same_run_if:
  "same_run a a' \<Longrightarrow> same_run b b' \<Longrightarrow> same_run (if c then a else b) (if c then a' else b')"
  by simp

lemma same_run_case_prod:
  "(\<And>a b. same_run (f a b) (f' a b)) \<Longrightarrow> same_run (case_prod f p) (case_prod f' p)"
  by (cases p) simp

lemma same_run_case_option:
  "same_run a a' \<Longrightarrow> (\<And>v. same_run (f v) (f' v)) \<Longrightarrow>
   same_run (case_option a f x) (case_option a' f' x)"
  by (cases x) simp_all

lemmas same_run_intros =
  same_run_return same_run_raise same_run_log_line same_run_mark same_run_lib
  same_run_bind same_run_if same_run_case_prod same_run_case_option

subsection \<open>Returning normally\<close>

lemma returns_return: "returns (py_return x)"
  by (simp add: returns_def py_return_def)

lemma returns_log_line: "returns (log_line msg)"
  by (simp add: returns_def log_line_def)

lemma returns_mark: "returns (mark ev)"
  by (simp add: returns_def mark_def)

lemma returns_lib: "answers L \<Longrightarrow> returns (lib L c)"
  by (simp add: returns_def lib_def Let_def answers_def)

lemma returns_bind:
  assumes "returns m" and "\<And>x. returns (f x)"
  shows "returns (py_bind m f)"
  unfolding returns_def
proof
  fix s
  from assms(1) obtain x s1 where "m s = (Inr x, s1)"
    unfolding returns_def by blast
  moreover from assms(2)[of x] obtain y s2 where "f x s1 = (Inr y, s2)"
    unfolding returns_def by blast
  ultimately show "\<exists>y s'. py_bind m f s = (Inr y, s')"
    by (simp add: py_bind_def)
qed

lemma returns_if: "returns a \<Longrightarrow> returns b \<Longrightarrow> returns (if c then a else b)"
  by simp

lemma returns_case_prod: "(\<And>a b. returns (f a b)) \<Longrightarrow> returns (case_prod f p)"
  by (cases p) simp

lemmas returns_intros =
  returns_return returns_log_line returns_mark returns_lib returns_bind returns_if
  returns_case_prod

subsection \<open>Observations\<close>

lemma observes_return: "observes \<phi> [] (py_return x)"
  by (simp add: observes_def py_return_def)

lemma observes_raise: "observes \<phi> xs (py_raise e)"
  by (auto simp: observes_def py_raise_def intro: exI[of _ 0])

lemma observes_log_line: "observes \<phi> [] (log_line msg)"
  by (simp add: observes_def log_line_def)

lemma observes_mark: "\<phi> ev = xs \<Longrightarrow> observes \<phi> xs (mark ev)"
  by (auto simp: observes_def mark_def)

lemma observes_lib: "(\<And>r. \<phi> (Called c r) = xs) \<Longrightarrow> observes \<phi> xs (lib L c)"
  by (auto simp: observes_def lib_def Let_def split: sum.splits intro: exI[of _ "length xs"])

lemma observes_bind:
  assumes "observes \<phi> xs m" and "\<And>x. observes \<phi> ys (f x)"
  shows "observes \<phi> (xs @ ys) (py_bind m f)"
  unfolding observes_def
proof
  fix s
  from assms(1) obtain evs1 where e1: "trace (snd (m s)) = trace s @ evs1"
    and o1: "case fst (m s) of Inr _ \<Rightarrow> concat (map \<phi> evs1) = xs
             | Inl _ \<Rightarrow> (\<exists>k. concat (map \<phi> evs1) = take k xs)"
    unfolding observes_def by blast
  obtain r s1 where ms: "m s = (r, s1)" by (cases "m s")
  show "\<exists>evs. trace (snd (py_bind m f s)) = trace s @ evs \<and>
          (case fst (py_bind m f s) of
             Inr _ \<Rightarrow> concat (map \<phi> evs) = xs @ ys
           | Inl _ \<Rightarrow> (\<exists>k. concat (map \<phi> evs) = take k (xs @ ys)))"
  proof (cases r)
    case (Inl e)
    with ms o1 obtain k where k: "concat (map \<phi> evs1) = take k xs" by auto
    have "take k xs = take (min k (length xs)) (xs @ ys)"
      by (cases "k \<le> length xs") (simp_all add: min_def)
    with k have "\<exists>j. concat (map \<phi> evs1) = take j (xs @ ys)" by metis
    with ms Inl e1 show ?thesis by (auto simp: py_bind_def)
  next
    case (Inr x)
    with ms o1 have x1: "concat (map \<phi> evs1) = xs" by simp
    from assms(2)[of x] obtain evs2 where e2: "trace (snd (f x s1)) = trace s1 @ evs2"
      and o2: "case fst (f x s1) of Inr _ \<Rightarrow> concat (map \<phi> evs2) = ys
               | Inl _ \<Rightarrow> (\<exists>k. concat (map \<phi> evs2) = take k ys)"
      unfolding observes_def by blast
    have bind: "py_bind m f s = f x s1"
      using ms Inr by (simp add: py_bind_def)
    have "case fst (f x s1) of
            Inr _ \<Rightarrow> concat (map \<phi> (evs1 @ evs2)) = xs @ ys
          | Inl _ \<Rightarrow> (\<exists>k. concat (map \<phi> (evs1 @ evs2)) = take k (xs @ ys))"
    proof (cases "fst (f x s1)")
      case (Inl e)
      with o2 obtain k where "concat (map \<phi> evs2) = take k ys" by auto
      with x1 have "concat (map \<phi> (evs1 @ evs2)) = take (length xs + k) (xs @ ys)"
        by simp
      then have "\<exists>j. concat (map \<phi> (evs1 @ evs2)) = take j (xs @ ys)"
        by (rule exI)
      with Inl show ?thesis by simp
    next
      case (Inr y)
      with o2 x1 show ?thesis by simp
    qed
    with bind e1 e2 ms show ?thesis by auto
  qed
qed

lemma observes_bind_left:
  "observes \<phi> [] m \<Longrightarrow> (\<And>x. observes \<phi> xs (f x)) \<Longrightarrow> observes \<phi> xs (py_bind m f)"
  using observes_bind[of \<phi> "[]" m xs f] by simp

lemma observes_bind_right:
  "observes \<phi> xs m \<Longrightarrow> (\<And>x. observes \<phi> [] (f x)) \<Longrightarrow> observes \<phi> xs (py_bind m f)"
  using observes_bind[of \<phi> xs m "[]" f] by simp

lemma observes_if:
  "observes \<phi> xs a \<Longrightarrow> observes \<phi> ys b \<Longrightarrow>
   observes \<phi> (if c then xs else ys) (if c then a else b)"
  by simp

lemma observes_if_same:
  "observes \<phi> xs a \<Longrightarrow> observes \<phi> xs b \<Longrightarrow> observes \<phi> xs (if c then a else b)"
  by simp

lemma observes_case_prod:
  "(\<And>a b. observes \<phi> xs (f a b)) \<Longrightarrow> observes \<phi> xs (case_prod f p)"
  by (cases p) simp

lemma observes_case_option:
  "observes \<phi> xs a \<Longrightarrow> (\<And>v. observes \<phi> xs (f v)) \<Longrightarrow> observes \<phi> xs (case_option a f x)"
  by (cases x) simp_all

text \<open>Computations that show nothing of an observation.\<close>

lemmas observes_nil_intros =
  observes_return observes_raise observes_log_line observes_mark observes_lib
  observes_bind_left observes_if_same observes_case_prod observes_case_option

lemma observes_new_events:
  assumes "observes \<phi> xs m"
  shows "trace (snd (m s)) = trace s @ new_events m s"
    and "\<exists>k. concat (map \<phi> (new_events m s)) = take k xs"
    and "m s = (Inr x, s') \<Longrightarrow> concat (map \<phi> (new_events m s)) = xs"
proof -
  from assms obtain evs where e: "trace (snd (m s)) = trace s @ evs"
    and o: "case fst (m s) of Inr _ \<Rightarrow> concat (map \<phi> evs) = xs
            | Inl _ \<Rightarrow> (\<exists>k. concat (map \<phi> evs) = take k xs)"
    unfolding observes_def by blast
  from e have n: "new_events m s = evs" by (simp add: new_events_def)
  with e show "trace (snd (m s)) = trace s @ new_events m s" by simp
  show "\<exists>k. concat (map \<phi> (new_events m s)) = take k xs"
  proof (cases "fst (m s)")
    case (Inl e)
    with o n show ?thesis by simp
  next
    case (Inr y)
    with o n have "concat (map \<phi> (new_events m s)) = take (length xs) xs" by simp
    then show ?thesis by blast
  qed
  show "m s = (Inr x, s') \<Longrightarrow> concat (map \<phi> (new_events m s)) = xs"
    using o n by simp
qed

lemma set_rag_context_observes:
  assumes "\<And>c r. \<phi> (Called c r) = []"
  shows "observes \<phi> [] (set_rag_context L cfg)"
  unfolding set_rag_context_def Let_def
  by (intro observes_nil_intros assms)

subsection \<open>Observations of the routers and of the backend entry points\<close>

lemma observes_raise_nil: "observes \<phi> [] (py_raise e)"
  by (rule observes_raise)

lemma observes_mark_ev: "observes \<phi> (\<phi> ev) (mark ev)"
  by (rule observes_mark) simp

lemmas observes_rules =
  observes_return observes_raise_nil observes_log_line observes_mark_ev observes_lib
  observes_bind observes_if observes_case_prod observes_case_option

lemmas run_defs =
  vectorize_docs_def process_query_def set_rag_context_def Let_def backend_defs py_bind_return

lemma observes_eq: "\<exists>ys. observes \<phi> ys m \<and> ys = xs \<Longrightarrow> observes \<phi> xs m"
  by simp

lemma vectorize_docs_entry:
  "observes entry
     ((if ''weaviate'' \<in> set vdbs then [(Weaviate, ''vectorize_docs'')] else []) @
      (if ''chromadb'' \<in> set vdbs then [(ChromaDB, ''vectorize_docs'')] else []))
     (vectorize_docs L environ cfg docs vdbs)"
  unfolding run_defs
  apply (rule observes_eq, rule exI, rule conjI)
   apply (rule observes_rules | simp)+
  done

lemma vectorize_docs_exit:
  "observes exit
     ((if ''weaviate'' \<in> set vdbs then [(Weaviate, ''vectorize_docs'')] else []) @
      (if ''chromadb'' \<in> set vdbs then [(ChromaDB, ''vectorize_docs'')] else []))
     (vectorize_docs L environ cfg docs vdbs)"
  unfolding run_defs
  apply (rule observes_eq, rule exI, rule conjI)
   apply (rule observes_rules | simp)+
  done

lemma vectorize_docs_indexed_batch:
  "observes indexed_batch
     ((if ''weaviate'' \<in> set vdbs then [docs] else []) @
      (if ''chromadb'' \<in> set vdbs then [docs] else []))
     (vectorize_docs L environ cfg docs vdbs)"
  unfolding run_defs
  apply (rule observes_eq, rule exI, rule conjI)
   apply (rule observes_rules | simp)+
  done

lemma vectorize_docs_weaviate_url:
  "observes weaviate_url
     (if ''weaviate'' \<in> set vdbs
      then [''http://'' @ format_opt (environ ''WEAVIATE_HOST'') @ '':'' @
              format_opt (environ ''WEAVIATE_PORT'')]
      else [])
     (vectorize_docs L environ cfg docs vdbs)"
  unfolding run_defs
  apply (rule observes_eq, rule exI, rule conjI)
   apply (rule observes_rules | simp)+
  done

lemma vectorize_docs_chromadb_target:
  "observes chromadb_target
     (if ''chromadb'' \<in> set vdbs
      then [(environ ''CHROMADB_HOST'', environ ''CHROMADB_PORT'')] else [])
     (vectorize_docs L environ cfg docs vdbs)"
  unfolding run_defs
  apply (rule observes_eq, rule exI, rule conjI)
   apply (rule observes_rules | simp)+
  done

lemma process_query_entry:
  "observes entry
     ((if ''weaviate'' \<in> set (rag_vector_stores cfg)
       then [(Weaviate, ''process_query'')] else []) @
      (if ''chromadb'' \<in> set (rag_vector_stores cfg)
       then [(ChromaDB, ''process_query'')] else []))
     (process_query L environ cfg q)"
  unfolding run_defs
  apply (rule observes_eq, rule exI, rule conjI)
   apply (rule observes_rules | simp)+
  done

lemma process_query_weaviate_url:
  "observes weaviate_url
     (if ''weaviate'' \<in> set (rag_vector_stores cfg)
      then [''http://'' @ format_opt (environ ''WEAVIATE_HOST'') @ '':'' @
              format_opt (environ ''WEAVIATE_PORT'')]
      else [])
     (process_query L environ cfg q)"
  unfolding run_defs
  apply (rule observes_eq, rule exI, rule conjI)
   apply (rule observes_rules | simp)+
  done

lemma process_query_chromadb_target:
  "observes chromadb_target
     (if ''chromadb'' \<in> set (rag_vector_stores cfg)
      then [(environ ''CHROMADB_HOST'', environ ''CHROMADB_PORT'')] else [])
     (process_query L environ cfg q)"
  unfolding run_defs
  apply (rule observes_eq, rule exI, rule conjI)
   apply (rule observes_rules | simp)+
  done

lemma Weaviate_process_query_index_name:
  "observes index_name_of [environ ''LFAI_INDEX_NAME'']
     (Weaviate_process_query L environ q)"
  unfolding run_defs
  apply (rule observes_eq, rule exI, rule conjI)
   apply (rule observes_rules | simp)+
  done

lemma ChromaDB_process_query_index_name:
  "observes index_name_of [environ ''LFAI_INDEX_NAME'']
     (ChromaDB_process_query L environ q)"
  unfolding run_defs
  apply (rule observes_eq, rule exI, rule conjI)
   apply (rule observes_rules | simp)+
  done

lemma get_client_observes:
  "observes weaviate_url
     [''http://'' @ format_opt (environ ''WEAVIATE_HOST'') @ '':'' @
        format_opt (environ ''WEAVIATE_PORT'')]
     (Weaviate_get_client L environ)"
  "observes chromadb_target [(environ ''CHROMADB_HOST'', environ ''CHROMADB_PORT'')]
     (ChromaDB_get_client L environ)"
  unfolding run_defs
  by (rule observes_lib, simp)+

subsection \<open>The routers stop at the first failure, and do not read the log\<close>

lemma routers_fail_stop:
  "fail_stop (vectorize_docs L environ cfg docs vdbs)"
  "fail_stop (process_query L environ cfg q)"
  unfolding run_defs
  by (intro fail_stop_intros; simp)+

lemma vectorize_docs_same_run:
  assumes "''weaviate'' \<in> set vdbs \<longleftrightarrow> ''weaviate'' \<in> set vdbs'"
    and "''chromadb'' \<in> set vdbs \<longleftrightarrow> ''chromadb'' \<in> set vdbs'"
  shows "same_run (vectorize_docs L environ cfg docs vdbs)
           (vectorize_docs L environ cfg docs vdbs')"
  unfolding run_defs assms
  by (intro same_run_intros)

lemma set_rag_context_returns:
  assumes "answers L"
    and "hub (rag_llm cfg) = ''huggingface'' \<or> hub (rag_llm cfg) = ''openai''"
  shows "returns (set_rag_context L cfg)"
  using assms(2) unfolding set_rag_context_def Let_def
  by (elim disjE; simp add: py_bind_assoc py_bind_return;
      intro conjI impI returns_intros assms(1))

lemma routers_return:
  assumes "answers L"
    and "hub (rag_llm cfg) = ''huggingface'' \<or> hub (rag_llm cfg) = ''openai''"
  shows "returns (vectorize_docs L environ cfg docs vdbs)"
    and "returns (process_query L environ cfg q)"
  unfolding vectorize_docs_def process_query_def Let_def backend_defs py_bind_return
  by (intro returns_intros assms(1) set_rag_context_returns[OF assms])+

section \<open>The schema defaults\<close>

text \<open>
  Claim C5.  Constructing a \<^verbatim>\<open>CompletionRequest\<close> from a model and a prompt alone yields
  \<^verbatim>\<open>stream=False\<close>, \<^verbatim>\<open>max_new_tokens=16\<close>, \<^verbatim>\<open>temperature=1.0\<close>; a \<^verbatim>\<open>ChatCompletionRequest\<close>
  from a model and messages alone yields \<^verbatim>\<open>functions=None\<close>, \<^verbatim>\<open>temperature=1.0\<close>,
  \<^verbatim>\<open>stream=False\<close>, \<^verbatim>\<open>stop=None\<close>, \<^verbatim>\<open>max_tokens=128\<close>; a \<^verbatim>\<open>ModelResponseModel\<close> from an id
  alone yields \<^verbatim>\<open>object="model"\<close>, \<^verbatim>\<open>created=0\<close>, \<^verbatim>\<open>owned_by="leapfrogai"\<close>; a
  \<^verbatim>\<open>ModelResponse\<close> from nothing yields \<^verbatim>\<open>object="list"\<close> and \<^verbatim>\<open>data=[]\<close>.
\<close>

theorem schema_defaults:
  "construct CompletionRequest [''model'' \<mapsto> m, ''prompt'' \<mapsto> p] =
     Inr [(''model'', m), (''prompt'', p), (''stream'', VBool False),
          (''max_new_tokens'', VInt 16), (''temperature'', VFloat 1.0)] \<and>
   construct ChatCompletionRequest [''model'' \<mapsto> m, ''messages'' \<mapsto> ms] =
     Inr [(''model'', m), (''messages'', ms), (''functions'', VNone),
          (''temperature'', VFloat 1.0), (''stream'', VBool False), (''stop'', VNone),
          (''max_tokens'', VInt 128)] \<and>
   construct ModelResponseModel [''id'' \<mapsto> i] =
     Inr [(''id'', i), (''object'', VStr ''model''), (''created'', VInt 0),
          (''owned_by'', VStr ''leapfrogai'')] \<and>
   construct ModelResponse Map.empty =
     Inr [(''object'', VStr ''list''), (''data'', VList [])]"
  by (simp add: CompletionRequest_def ChatCompletionRequest_def ModelResponseModel_def
      ModelResponse_def)

section \<open>Failures of the libraries\<close>

text \<open>The definitions a concrete run is evaluated with.\<close>

lemmas eval_defs =
  run_defs py_bind_def py_return_def py_raise_def lib_def mark_def log_line_def
  lib_ok_def lib_chromadb_down_def world0_def config0_def config_local_def environ0_def

text \<open>
  Claim C4.  If a library call made during a vectorize or a query request raises, the router
  neither handles it nor tries again: the failed call is the last thing the request does, and
  the request ends with that very exception instead of a result; in particular no partial list
  of processed backends is returned when a later backend fails after an earlier one succeeded.
\<close>

theorem library_failure_propagates:
  "(\<exists>evs. trace (snd (vectorize_docs L environ cfg docs vdbs s)) = trace s @ evs \<and>
      (\<forall>i<length evs. \<forall>c e. evs ! i = Called c (Inl e) \<longrightarrow>
         Suc i = length evs \<and> fst (vectorize_docs L environ cfg docs vdbs s) = Inl e)) \<and>
   (\<exists>evs. trace (snd (process_query L environ cfg q s)) = trace s @ evs \<and>
      (\<forall>i<length evs. \<forall>c e. evs ! i = Called c (Inl e) \<longrightarrow>
         Suc i = length evs \<and> fst (process_query L environ cfg q s) = Inl e))"
  using routers_fail_stop(1)[of L environ cfg docs vdbs]
    routers_fail_stop(2)[of L environ cfg q]
  unfolding fail_stop_def by blast

text \<open>
  With the chromadb service down and both backends enabled, the weaviate ingestion completes,
  the construction of the chromadb client raises, and the request ends with that exception.
\<close>

lemma chromadb_down_trace:
  "trace (snd (vectorize_docs lib_chromadb_down environ0 (config0 []) (Opaque 0)
     [''weaviate'', ''chromadb''] world0)) =
   [Called (OpenAI ''gpt-3.5-turbo'' ''gpt-3.5-turbo'') (Inr (Opaque 0)),
    Called (HuggingFaceEmbedding ''bge-small'') (Inr (Opaque 1)),
    Called (ServiceContext_from_defaults (Opaque 0) (Opaque 1)) (Inr (Opaque 2)),
    Called (Set_global_service_context (Opaque 2)) (Inr (Opaque 3)),
    Called (To_dict (Opaque 2)) (Inr (Opaque 4)),
    Called (Getitem (Opaque 4) ''llm'') (Inr (Opaque 5)),
    Called (Dict_get (Opaque 5) ''class_name'') (Inr (Opaque 6)),
    Called (Getitem (Opaque 4) ''llm'') (Inr (Opaque 7)),
    Called (Dict_get (Opaque 7) ''model'') (Inr (Opaque 8)),
    Called (Getitem (Opaque 4) ''embed_model'') (Inr (Opaque 9)),
    Called (Dict_get (Opaque 9) ''class_name'') (Inr (Opaque 10)),
    Called (Getitem (Opaque 4) ''embed_model'') (Inr (Opaque 11)),
    Called (Dict_get (Opaque 11) ''model_name'') (Inr (Opaque 12)),
    Entered Weaviate ''vectorize_docs'',
    Called (Weaviate_Client ''http://weaviate:8080'') (Inr (Opaque 14)),
    Called (WeaviateVectorStore (Opaque 14) (Some ''Leapfrog'')) (Inr (Opaque 15)),
    Called (StorageContext_from_defaults (Opaque 15)) (Inr (Opaque 16)),
    Called (VectorStoreIndex_from_documents (Opaque 0) (Opaque 16)) (Inr (Opaque 17)),
    Called (Getattr (Opaque 17) ''storage_context'') (Inr (Opaque 18)),
    Called (Persist (Opaque 18)) (Inr (Opaque 19)),
    Returned Weaviate ''vectorize_docs'',
    Entered ChromaDB ''vectorize_docs'',
    Called (Chromadb_HttpClient (Some ''chroma'') (Some ''8000'')) (Inl (LibraryError 111))]"
  by (simp add: eval_defs)

theorem library_failure_propagates_witness:
  "fst (vectorize_docs lib_chromadb_down environ0 (config0 []) (Opaque 0)
          [''weaviate'', ''chromadb''] world0) = Inl (LibraryError 111) \<and>
   returned (trace (snd (vectorize_docs lib_chromadb_down environ0 (config0 []) (Opaque 0)
          [''weaviate'', ''chromadb''] world0))) = [(Weaviate, ''vectorize_docs'')] \<and>
   last (trace (snd (vectorize_docs lib_chromadb_down environ0 (config0 []) (Opaque 0)
          [''weaviate'', ''chromadb''] world0))) =
     Called (Chromadb_HttpClient (Some ''chroma'') (Some ''8000'')) (Inl (LibraryError 111))"
proof -
  let ?run = "vectorize_docs lib_chromadb_down environ0 (config0 []) (Opaque 0)
                [''weaviate'', ''chromadb''] world0"
  from library_failure_propagates[of lib_chromadb_down environ0 "config0 []" "Opaque 0"
      "[''weaviate'', ''chromadb'']" world0]
  obtain evs where evs: "trace (snd ?run) = trace world0 @ evs"
    and stop: "\<forall>i<length evs. \<forall>c e. evs ! i = Called c (Inl e) \<longrightarrow>
                 Suc i = length evs \<and> fst ?run = Inl e"
    by blast
  from evs have "evs = trace (snd ?run)"
    by (simp add: world0_def)
  with stop[rule_format, of 22 "Chromadb_HttpClient (Some ''chroma'') (Some ''8000'')"
      "LibraryError 111"]
  have "fst ?run = Inl (LibraryError 111)"
    by (simp add: chromadb_down_trace)
  then show ?thesis
    by (simp add: chromadb_down_trace returned_def)
qed

section \<open>Where the clients point, and which index is queried\<close>

lemma observes_subset:
  assumes "observes \<phi> xs m"
  shows "set (concat (map \<phi> (new_events m s))) \<subseteq> set xs"
proof -
  from observes_new_events(2)[OF assms, of s]
  obtain k where "concat (map \<phi> (new_events m s)) = take k xs" by blast
  then show ?thesis by (simp add: set_take_subset)
qed

lemma observes_within:
  assumes "observes \<phi> xs m" and "set xs \<subseteq> A"
  shows "set (concat (map \<phi> (new_events m s))) \<subseteq> A"
  using observes_subset[OF assms(1), of s] assms(2) by blast

text \<open>
  Claim C9.  Each backend client is addressed by the host and port of the process environment,
  as the class bodies read it: \<^verbatim>\<open>Weaviate.get_client\<close> builds its client for the URL
  \<^verbatim>\<open>http://HOST:PORT\<close> of \<^verbatim>\<open>WEAVIATE_HOST\<close> and \<^verbatim>\<open>WEAVIATE_PORT\<close>, \<^verbatim>\<open>ChromaDB.get_client\<close>
  builds its client with the host \<^verbatim>\<open>CHROMADB_HOST\<close> and the port \<^verbatim>\<open>CHROMADB_PORT\<close>, and every
  client a vectorize or a query request builds is addressed so.  (A variable that is not set
  is \<^verbatim>\<open>None\<close>, which the f-string of the URL prints as the text \<^verbatim>\<open>None\<close>.)
\<close>

theorem clients_addressed_from_environment:
  fixes environ :: environ
  defines "url \<equiv> ''http://'' @ format_opt (environ ''WEAVIATE_HOST'') @ '':'' @
                   format_opt (environ ''WEAVIATE_PORT'')"
    and "target \<equiv> (environ ''CHROMADB_HOST'', environ ''CHROMADB_PORT'')"
  shows
    "weaviate_urls (new_events (Weaviate_get_client L environ) s) = [url] \<and>
     (environ ''WEAVIATE_HOST'' = Some h \<and> environ ''WEAVIATE_PORT'' = Some p \<longrightarrow>
        url = ''http://'' @ h @ '':'' @ p) \<and>
     chromadb_targets (new_events (ChromaDB_get_client L environ) s) = [target] \<and>
     set (weaviate_urls (new_events (vectorize_docs L environ cfg docs vdbs) s)) \<subseteq> {url} \<and>
     set (chromadb_targets (new_events (vectorize_docs L environ cfg docs vdbs) s))
       \<subseteq> {target} \<and>
     set (weaviate_urls (new_events (process_query L environ cfg q) s)) \<subseteq> {url} \<and>
     set (chromadb_targets (new_events (process_query L environ cfg q) s)) \<subseteq> {target}"
proof -
  have 1: "weaviate_urls (new_events (Weaviate_get_client L environ) s) = [url]"
    by (simp add: weaviate_urls_def new_events_def run_defs lib_def url_def)
  have 2: "chromadb_targets (new_events (ChromaDB_get_client L environ) s) = [target]"
    by (simp add: chromadb_targets_def new_events_def run_defs lib_def target_def)
  have 3: "environ ''WEAVIATE_HOST'' = Some h \<and> environ ''WEAVIATE_PORT'' = Some p \<longrightarrow>
        url = ''http://'' @ h @ '':'' @ p"
    by (simp add: url_def)
  have 4: "set (weaviate_urls (new_events (vectorize_docs L environ cfg docs vdbs) s))
             \<subseteq> {url}"
    unfolding weaviate_urls_def url_def
    by (rule observes_within[OF vectorize_docs_weaviate_url]) auto
  have 5: "set (chromadb_targets (new_events (vectorize_docs L environ cfg docs vdbs) s))
             \<subseteq> {target}"
    unfolding chromadb_targets_def target_def
    by (rule observes_within[OF vectorize_docs_chromadb_target]) auto
  have 6: "set (weaviate_urls (new_events (process_query L environ cfg q) s)) \<subseteq> {url}"
    unfolding weaviate_urls_def url_def
    by (rule observes_within[OF process_query_weaviate_url]) auto
  have 7: "set (chromadb_targets (new_events (process_query L environ cfg q) s))
             \<subseteq> {target}"
    unfolding chromadb_targets_def target_def
    by (rule observes_within[OF process_query_chromadb_target]) auto
  from 1 2 3 4 5 6 7 show ?thesis by blast
qed

text \<open>
  In the example environment a query request with both backends enabled builds one client
  for \<^verbatim>\<open>http://weaviate:8080\<close> and one for the host \<^verbatim>\<open>chroma\<close>, port \<^verbatim>\<open>8000\<close>.
\<close>

theorem clients_addressed_from_environment_witness:
  "weaviate_urls (new_events (Weaviate_get_client lib_ok environ0) world0)
     = [''http://weaviate:8080''] \<and>
   chromadb_targets (new_events (ChromaDB_get_client lib_ok environ0) world0)
     = [(Some ''chroma'', Some ''8000'')] \<and>
   weaviate_urls (new_events
     (process_query lib_ok environ0 (config0 [''weaviate'', ''chromadb'']) ''hello'') world0)
     = [''http://weaviate:8080''] \<and>
   chromadb_targets (new_events
     (process_query lib_ok environ0 (config0 [''weaviate'', ''chromadb'']) ''hello'') world0)
     = [(Some ''chroma'', Some ''8000'')]"
  using clients_addressed_from_environment[where L = lib_ok and environ = environ0
      and s = world0 and h = "''weaviate''" and p = "''8080''"
      and cfg = "config0 [''weaviate'', ''chromadb'']" and docs = "Opaque 0"
      and vdbs = "[''weaviate'', ''chromadb'']" and q = "''hello''"]
  by (simp add: eval_defs new_events_def weaviate_urls_def chromadb_targets_def)

lemma observes_length:
  assumes "observes \<phi> xs m"
  shows "length (concat (map \<phi> (new_events m s))) \<le> length xs"
proof -
  from observes_new_events(2)[OF assms, of s]
  obtain k where "concat (map \<phi> (new_events m s)) = take k xs" by blast
  then show ?thesis by simp
qed

text \<open>
  Claim C8.  Both query entry points query the same index name.  Neither \<^verbatim>\<open>Weaviate\<close> nor
  \<^verbatim>\<open>ChromaDB\<close> defines \<^verbatim>\<open>LFAI_INDEX_NAME\<close> itself, so the attribute read through either class
  is the one value of \<^verbatim>\<open>BaseVectorStore\<close>, the \<^verbatim>\<open>LFAI_INDEX_NAME\<close> of the environment; and in
  every run of \<^verbatim>\<open>Weaviate.process_query\<close> and of \<^verbatim>\<open>ChromaDB.process_query\<close> (which reads
  \<^verbatim>\<open>Weaviate.LFAI_INDEX_NAME\<close>) the vector-store lookup is made at most once and with that
  name, exactly once when the entry point returns.
\<close>

theorem query_entry_points_share_index_name:
  "class_body environ Weaviate ''LFAI_INDEX_NAME'' = None \<and>
   class_body environ ChromaDB ''LFAI_INDEX_NAME'' = None \<and>
   class_body environ BaseVectorStore ''LFAI_INDEX_NAME'' = Some (environ ''LFAI_INDEX_NAME'') \<and>
   class_attr environ Weaviate ''LFAI_INDEX_NAME'' = py_return (environ ''LFAI_INDEX_NAME'') \<and>
   class_attr environ ChromaDB ''LFAI_INDEX_NAME'' = py_return (environ ''LFAI_INDEX_NAME'') \<and>
   set (index_names (new_events (Weaviate_process_query L environ q) s))
     \<subseteq> {environ ''LFAI_INDEX_NAME''} \<and>
   set (index_names (new_events (ChromaDB_process_query L environ q) s))
     \<subseteq> {environ ''LFAI_INDEX_NAME''} \<and>
   length (index_names (new_events (Weaviate_process_query L environ q) s)) \<le> 1 \<and>
   length (index_names (new_events (ChromaDB_process_query L environ q) s)) \<le> 1 \<and>
   (Weaviate_process_query L environ q s = (Inr a, s') \<longrightarrow>
      index_names (new_events (Weaviate_process_query L environ q) s)
        = [environ ''LFAI_INDEX_NAME'']) \<and>
   (ChromaDB_process_query L environ q s = (Inr a, s') \<longrightarrow>
      index_names (new_events (ChromaDB_process_query L environ q) s)
        = [environ ''LFAI_INDEX_NAME''])"
proof -
  have body: "class_body environ Weaviate ''LFAI_INDEX_NAME'' = None"
    "class_body environ ChromaDB ''LFAI_INDEX_NAME'' = None"
    "class_body environ BaseVectorStore ''LFAI_INDEX_NAME'' = Some (environ ''LFAI_INDEX_NAME'')"
    by (simp_all add: class_body_def)
  have w: "set (index_names (new_events (Weaviate_process_query L environ q) s))
             \<subseteq> {environ ''LFAI_INDEX_NAME''}"
    unfolding index_names_def
    by (rule observes_within[OF Weaviate_process_query_index_name]) simp
  have c: "set (index_names (new_events (ChromaDB_process_query L environ q) s))
             \<subseteq> {environ ''LFAI_INDEX_NAME''}"
    unfolding index_names_def
    by (rule observes_within[OF ChromaDB_process_query_index_name]) simp
  have wl: "length (index_names (new_events (Weaviate_process_query L environ q) s)) \<le> 1"
    unfolding index_names_def
    by (rule order_trans[OF observes_length[OF Weaviate_process_query_index_name]]) simp
  have cl: "length (index_names (new_events (ChromaDB_process_query L environ q) s)) \<le> 1"
    unfolding index_names_def
    by (rule order_trans[OF observes_length[OF ChromaDB_process_query_index_name]]) simp
  have wr: "Weaviate_process_query L environ q s = (Inr a, s') \<longrightarrow>
      index_names (new_events (Weaviate_process_query L environ q) s)
        = [environ ''LFAI_INDEX_NAME'']"
    unfolding index_names_def
    using observes_new_events(3)[OF Weaviate_process_query_index_name] by blast
  have cr: "ChromaDB_process_query L environ q s = (Inr a, s') \<longrightarrow>
      index_names (new_events (ChromaDB_process_query L environ q) s)
        = [environ ''LFAI_INDEX_NAME'']"
    unfolding index_names_def
    using observes_new_events(3)[OF ChromaDB_process_query_index_name] by blast
  from body class_attr_simps(5,6)[of environ] w c wl cl wr cr show ?thesis
    by blast
qed

text \<open>
  In the example environment both entry points return and both look up the index
  \<^verbatim>\<open>Leapfrog\<close>.
\<close>

lemma example_queries_return:
  "fst (Weaviate_process_query lib_ok environ0 ''hello'' world0) =
     Inr \<lparr>vector_store = ''weaviate'', response = Opaque 7, elapsed = Opaque 8\<rparr>"
  "fst (ChromaDB_process_query lib_ok environ0 ''hello'' world0) =
     Inr \<lparr>vector_store = ''chromadb'', response = Opaque 8, elapsed = Opaque 9\<rparr>"
  by (simp_all add: eval_defs)

theorem query_entry_points_share_index_name_witness:
  "index_names (new_events (Weaviate_process_query lib_ok environ0 ''hello'') world0)
     = [Some ''Leapfrog''] \<and>
   index_names (new_events (ChromaDB_process_query lib_ok environ0 ''hello'') world0)
     = [Some ''Leapfrog'']"
proof -
  obtain a s' where w: "Weaviate_process_query lib_ok environ0 ''hello'' world0 = (Inr a, s')"
    using example_queries_return(1) by (metis prod.collapse)
  obtain b t' where c: "ChromaDB_process_query lib_ok environ0 ''hello'' world0 = (Inr b, t')"
    using example_queries_return(2) by (metis prod.collapse)
  from query_entry_points_share_index_name[of environ0 lib_ok "''hello''" world0 a s'] w
  have 1: "index_names (new_events (Weaviate_process_query lib_ok environ0 ''hello'') world0)
     = [environ0 ''LFAI_INDEX_NAME'']" by blast
  from query_entry_points_share_index_name[of environ0 lib_ok "''hello''" world0 b t'] c
  have 2: "index_names (new_events (ChromaDB_process_query lib_ok environ0 ''hello'') world0)
     = [environ0 ''LFAI_INDEX_NAME'']" by blast
  from 1 2 show ?thesis by (simp add: environ0_def)
qed

section \<open>Which backends a request invokes\<close>

lemma backend_answer_label:
  "Weaviate_process_query L environ q s = (Inr a, s') \<Longrightarrow> vector_store a = ''weaviate''"
  "ChromaDB_process_query L environ q s = (Inr a, s') \<Longrightarrow> vector_store a = ''chromadb''"
  unfolding backend_defs py_bind_return
  by (auto simp: Inr_simps)

lemma vectorize_docs_Inr:
  assumes "vectorize_docs L environ cfg docs vdbs s = (Inr ps, s')"
  shows "ps = filter (\<lambda>b. b \<in> set vdbs) [''weaviate'', ''chromadb'']"
  using assms unfolding vectorize_docs_def
  by (auto simp: Inr_simps split: if_splits)

lemma process_query_Inr:
  assumes "process_query L environ cfg q s = (Inr r, s')"
  shows "prompt r = q"
    and "vdbs_processed r = filter (\<lambda>b. b \<in> set (rag_vector_stores cfg)) [''weaviate'', ''chromadb'']"
    and "map vector_store (responses r) = vdbs_processed r"
  using assms unfolding process_query_def Let_def
  by (auto simp: Inr_simps backend_answer_label split: if_splits)

text \<open>
  Claim C7.  The routers depend on the configured list only through the two tests
  \<^verbatim>\<open>'weaviate' in vdbs\<close> and \<^verbatim>\<open>'chromadb' in vdbs\<close>: for two lists that agree on both, a
  vectorize request makes the same calls and returns the same, and so does a query request
  under configurations that differ in the list only.  Of any list, a request enters at most
  the weaviate entry point and then the chromadb entry point, each at most once, so a
  repeated name causes no repeated invocation and no other name is ever invoked; and the
  returned list holds \<^verbatim>\<open>weaviate\<close> and \<^verbatim>\<open>chromadb\<close> only, each at most once.
\<close>

theorem router_depends_on_membership_only:
  assumes "''weaviate'' \<in> set vdbs \<longleftrightarrow> ''weaviate'' \<in> set vdbs'"
    and "''chromadb'' \<in> set vdbs \<longleftrightarrow> ''chromadb'' \<in> set vdbs'"
  shows
    "fst (vectorize_docs L environ cfg docs vdbs s) =
       fst (vectorize_docs L environ cfg docs vdbs' s) \<and>
     trace (snd (vectorize_docs L environ cfg docs vdbs s)) =
       trace (snd (vectorize_docs L environ cfg docs vdbs' s)) \<and>
     process_query L environ (cfg\<lparr>rag_vector_stores := vdbs\<rparr>) q s =
       process_query L environ (cfg\<lparr>rag_vector_stores := vdbs'\<rparr>) q s \<and>
     (\<exists>k. entered (new_events (vectorize_docs L environ cfg docs vdbs) s) =
        take k ((if ''weaviate'' \<in> set vdbs then [(Weaviate, ''vectorize_docs'')] else []) @
                (if ''chromadb'' \<in> set vdbs then [(ChromaDB, ''vectorize_docs'')] else []))) \<and>
     (\<exists>k. entered (new_events (process_query L environ (cfg\<lparr>rag_vector_stores := vdbs\<rparr>) q) s) =
        take k ((if ''weaviate'' \<in> set vdbs then [(Weaviate, ''process_query'')] else []) @
                (if ''chromadb'' \<in> set vdbs then [(ChromaDB, ''process_query'')] else []))) \<and>
     (\<forall>ps s'. vectorize_docs L environ cfg docs vdbs s = (Inr ps, s') \<longrightarrow>
        ps = filter (\<lambda>b. b \<in> set vdbs) [''weaviate'', ''chromadb'']) \<and>
     (\<forall>r s'. process_query L environ (cfg\<lparr>rag_vector_stores := vdbs\<rparr>) q s = (Inr r, s') \<longrightarrow>
        vdbs_processed r = filter (\<lambda>b. b \<in> set vdbs) [''weaviate'', ''chromadb''])"
proof -
  have v: "fst (vectorize_docs L environ cfg docs vdbs s) =
       fst (vectorize_docs L environ cfg docs vdbs' s) \<and>
     trace (snd (vectorize_docs L environ cfg docs vdbs s)) =
       trace (snd (vectorize_docs L environ cfg docs vdbs' s))"
    using vectorize_docs_same_run[OF assms, of L environ cfg docs]
    unfolding same_run_def by blast
  have q: "process_query L environ (cfg\<lparr>rag_vector_stores := vdbs\<rparr>) q s =
       process_query L environ (cfg\<lparr>rag_vector_stores := vdbs'\<rparr>) q s"
    by (simp add: process_query_def set_rag_context_def assms)
  have ev: "\<exists>k. entered (new_events (vectorize_docs L environ cfg docs vdbs) s) =
        take k ((if ''weaviate'' \<in> set vdbs then [(Weaviate, ''vectorize_docs'')] else []) @
                (if ''chromadb'' \<in> set vdbs then [(ChromaDB, ''vectorize_docs'')] else []))"
    unfolding entered_def by (rule observes_new_events(2)[OF vectorize_docs_entry])
  have eq: "\<exists>k. entered (new_events (process_query L environ (cfg\<lparr>rag_vector_stores := vdbs\<rparr>) q) s) =
        take k ((if ''weaviate'' \<in> set vdbs then [(Weaviate, ''process_query'')] else []) @
                (if ''chromadb'' \<in> set vdbs then [(ChromaDB, ''process_query'')] else []))"
    unfolding entered_def
    using observes_new_events(2)[OF
        process_query_entry[where cfg = "cfg\<lparr>rag_vector_stores := vdbs\<rparr>"]]
    by simp
  have pv: "\<forall>ps s'. vectorize_docs L environ cfg docs vdbs s = (Inr ps, s') \<longrightarrow>
        ps = filter (\<lambda>b. b \<in> set vdbs) [''weaviate'', ''chromadb'']"
    using vectorize_docs_Inr by blast
  have pq: "\<forall>r s'. process_query L environ (cfg\<lparr>rag_vector_stores := vdbs\<rparr>) q s = (Inr r, s') \<longrightarrow>
        vdbs_processed r = filter (\<lambda>b. b \<in> set vdbs) [''weaviate'', ''chromadb'']"
    using process_query_Inr(2)[where cfg = "cfg\<lparr>rag_vector_stores := vdbs\<rparr>"] by simp
  from v q ev eq pv pq show ?thesis by blast
qed

text \<open>
  A list that names chromadb twice, weaviate once and a third service, against the plain list
  of the two backends.
\<close>

lemma example_vectorize_returns:
  "fst (vectorize_docs lib_ok environ0 (config0 []) (Opaque 0) [''weaviate'', ''chromadb'']
     world0) = Inr [''weaviate'', ''chromadb'']"
  by (simp add: eval_defs)

theorem router_depends_on_membership_only_witness:
  "fst (vectorize_docs lib_ok environ0 (config0 []) (Opaque 0)
          [''chromadb'', ''pinecone'', ''weaviate'', ''chromadb''] world0) =
     Inr [''weaviate'', ''chromadb''] \<and>
   trace (snd (vectorize_docs lib_ok environ0 (config0 []) (Opaque 0)
          [''chromadb'', ''pinecone'', ''weaviate'', ''chromadb''] world0)) =
     trace (snd (vectorize_docs lib_ok environ0 (config0 []) (Opaque 0)
          [''weaviate'', ''chromadb''] world0)) \<and>
   entered (new_events (vectorize_docs lib_ok environ0 (config0 []) (Opaque 0)
          [''chromadb'', ''pinecone'', ''weaviate'', ''chromadb'']) world0) =
     [(Weaviate, ''vectorize_docs''), (ChromaDB, ''vectorize_docs'')]"
proof -
  have w: "''weaviate'' \<in> set [''chromadb'', ''pinecone'', ''weaviate'', ''chromadb''] \<longleftrightarrow>
           ''weaviate'' \<in> set [''weaviate'', ''chromadb'']"
    and c: "''chromadb'' \<in> set [''chromadb'', ''pinecone'', ''weaviate'', ''chromadb''] \<longleftrightarrow>
           ''chromadb'' \<in> set [''weaviate'', ''chromadb'']"
    by simp_all
  note same = router_depends_on_membership_only[OF w c, of lib_ok environ0 "config0 []"
      "Opaque 0" world0 "''hello''"]
  from same example_vectorize_returns
  have "fst (vectorize_docs lib_ok environ0 (config0 []) (Opaque 0)
          [''chromadb'', ''pinecone'', ''weaviate'', ''chromadb''] world0) =
     Inr [''weaviate'', ''chromadb'']"
    by simp
  moreover from same
  have "trace (snd (vectorize_docs lib_ok environ0 (config0 []) (Opaque 0)
          [''chromadb'', ''pinecone'', ''weaviate'', ''chromadb''] world0)) =
     trace (snd (vectorize_docs lib_ok environ0 (config0 []) (Opaque 0)
          [''weaviate'', ''chromadb''] world0))"
    by blast
  moreover
  have "entered (new_events (vectorize_docs lib_ok environ0 (config0 []) (Opaque 0)
          [''chromadb'', ''pinecone'', ''weaviate'', ''chromadb'']) world0) =
     [(Weaviate, ''vectorize_docs''), (ChromaDB, ''vectorize_docs'')]"
    by (simp add: eval_defs new_events_def entered_def)
  ultimately show ?thesis by blast
qed

section \<open>The order of the backends\<close>

text \<open>
  Claim C1, as amended.  The spec asks for the enabled backends to be invoked in the order the
  list configures them, and for a result of the list's length and order.  The routers test
  \<^verbatim>\<open>'weaviate' in vdbs\<close> and then \<^verbatim>\<open>'chromadb' in vdbs\<close>: a request that returns has entered
  exactly the entry points of those of the two supported backends that the list names, each
  once and weaviate before chromadb, and its processed-backends list names them in that same
  fixed order.  The result is the configured list itself exactly when that list is one of
  \<^verbatim>\<open>[]\<close>, \<^verbatim>\<open>['weaviate']\<close>, \<^verbatim>\<open>['chromadb']\<close>, \<^verbatim>\<open>['weaviate', 'chromadb']\<close>.
\<close>

theorem router_invokes_enabled_backends_in_fixed_order:
  "(vectorize_docs L environ cfg docs vdbs s = (Inr ps, s') \<longrightarrow>
      entered (new_events (vectorize_docs L environ cfg docs vdbs) s) =
        (if ''weaviate'' \<in> set vdbs then [(Weaviate, ''vectorize_docs'')] else []) @
        (if ''chromadb'' \<in> set vdbs then [(ChromaDB, ''vectorize_docs'')] else []) \<and>
      ps = filter (\<lambda>b. b \<in> set vdbs) [''weaviate'', ''chromadb''] \<and>
      (ps = vdbs \<longleftrightarrow>
         vdbs \<in> {[], [''weaviate''], [''chromadb''], [''weaviate'', ''chromadb'']})) \<and>
   (process_query L environ cfg q s = (Inr r, t') \<longrightarrow>
      entered (new_events (process_query L environ cfg q) s) =
        (if ''weaviate'' \<in> set (rag_vector_stores cfg)
         then [(Weaviate, ''process_query'')] else []) @
        (if ''chromadb'' \<in> set (rag_vector_stores cfg)
         then [(ChromaDB, ''process_query'')] else []) \<and>
      vdbs_processed r =
        filter (\<lambda>b. b \<in> set (rag_vector_stores cfg)) [''weaviate'', ''chromadb''] \<and>
      (vdbs_processed r = rag_vector_stores cfg \<longleftrightarrow>
         rag_vector_stores cfg \<in>
           {[], [''weaviate''], [''chromadb''], [''weaviate'', ''chromadb'']}))"
proof -
  have canon: "filter (\<lambda>b. b \<in> set xs) [''weaviate'', ''chromadb''] = xs \<longleftrightarrow>
      xs \<in> {[], [''weaviate''], [''chromadb''], [''weaviate'', ''chromadb'']}"
    for xs :: "string list"
  proof
    assume "filter (\<lambda>b. b \<in> set xs) [''weaviate'', ''chromadb''] = xs"
    then have "xs = filter (\<lambda>b. b \<in> set xs) [''weaviate'', ''chromadb'']" by simp
    then show "xs \<in> {[], [''weaviate''], [''chromadb''], [''weaviate'', ''chromadb'']}"
      by (cases "''weaviate'' \<in> set xs"; cases "''chromadb'' \<in> set xs") simp_all
  next
    assume "xs \<in> {[], [''weaviate''], [''chromadb''], [''weaviate'', ''chromadb'']}"
    then show "filter (\<lambda>b. b \<in> set xs) [''weaviate'', ''chromadb''] = xs"
      by auto
  qed
  have v: "vectorize_docs L environ cfg docs vdbs s = (Inr ps, s') \<longrightarrow>
      entered (new_events (vectorize_docs L environ cfg docs vdbs) s) =
        (if ''weaviate'' \<in> set vdbs then [(Weaviate, ''vectorize_docs'')] else []) @
        (if ''chromadb'' \<in> set vdbs then [(ChromaDB, ''vectorize_docs'')] else []) \<and>
      ps = filter (\<lambda>b. b \<in> set vdbs) [''weaviate'', ''chromadb''] \<and>
      (ps = vdbs \<longleftrightarrow>
         vdbs \<in> {[], [''weaviate''], [''chromadb''], [''weaviate'', ''chromadb'']})"
  proof
    assume run: "vectorize_docs L environ cfg docs vdbs s = (Inr ps, s')"
    have e: "entered (new_events (vectorize_docs L environ cfg docs vdbs) s) =
        (if ''weaviate'' \<in> set vdbs then [(Weaviate, ''vectorize_docs'')] else []) @
        (if ''chromadb'' \<in> set vdbs then [(ChromaDB, ''vectorize_docs'')] else [])"
      unfolding entered_def by (rule observes_new_events(3)[OF vectorize_docs_entry run])
    have p: "ps = filter (\<lambda>b. b \<in> set vdbs) [''weaviate'', ''chromadb'']"
      by (rule vectorize_docs_Inr[OF run])
    from e p canon[of vdbs] show "entered (new_events (vectorize_docs L environ cfg docs vdbs) s) =
        (if ''weaviate'' \<in> set vdbs then [(Weaviate, ''vectorize_docs'')] else []) @
        (if ''chromadb'' \<in> set vdbs then [(ChromaDB, ''vectorize_docs'')] else []) \<and>
      ps = filter (\<lambda>b. b \<in> set vdbs) [''weaviate'', ''chromadb''] \<and>
      (ps = vdbs \<longleftrightarrow>
         vdbs \<in> {[], [''weaviate''], [''chromadb''], [''weaviate'', ''chromadb'']})"
      by simp
  qed
  have q: "process_query L environ cfg q s = (Inr r, t') \<longrightarrow>
      entered (new_events (process_query L environ cfg q) s) =
        (if ''weaviate'' \<in> set (rag_vector_stores cfg)
         then [(Weaviate, ''process_query'')] else []) @
        (if ''chromadb'' \<in> set (rag_vector_stores cfg)
         then [(ChromaDB, ''process_query'')] else []) \<and>
      vdbs_processed r =
        filter (\<lambda>b. b \<in> set (rag_vector_stores cfg)) [''weaviate'', ''chromadb''] \<and>
      (vdbs_processed r = rag_vector_stores cfg \<longleftrightarrow>
         rag_vector_stores cfg \<in>
           {[], [''weaviate''], [''chromadb''], [''weaviate'', ''chromadb'']})"
  proof
    assume run: "process_query L environ cfg q s = (Inr r, t')"
    have e: "entered (new_events (process_query L environ cfg q) s) =
        (if ''weaviate'' \<in> set (rag_vector_stores cfg)
         then [(Weaviate, ''process_query'')] else []) @
        (if ''chromadb'' \<in> set (rag_vector_stores cfg)
         then [(ChromaDB, ''process_query'')] else [])"
      unfolding entered_def by (rule observes_new_events(3)[OF process_query_entry run])
    have p: "vdbs_processed r =
        filter (\<lambda>b. b \<in> set (rag_vector_stores cfg)) [''weaviate'', ''chromadb'']"
      by (rule process_query_Inr(2)[OF run])
    from e p canon[of "rag_vector_stores cfg"]
    show "entered (new_events (process_query L environ cfg q) s) =
        (if ''weaviate'' \<in> set (rag_vector_stores cfg)
         then [(Weaviate, ''process_query'')] else []) @
        (if ''chromadb'' \<in> set (rag_vector_stores cfg)
         then [(ChromaDB, ''process_query'')] else []) \<and>
      vdbs_processed r =
        filter (\<lambda>b. b \<in> set (rag_vector_stores cfg)) [''weaviate'', ''chromadb''] \<and>
      (vdbs_processed r = rag_vector_stores cfg \<longleftrightarrow>
         rag_vector_stores cfg \<in>
           {[], [''weaviate''], [''chromadb''], [''weaviate'', ''chromadb'']})"
      by simp
  qed
  from v q show ?thesis by (rule conjI)
qed

text \<open>
  The list \<^verbatim>\<open>['chromadb', 'weaviate']\<close>: weaviate is invoked first and the result is
  \<^verbatim>\<open>['weaviate', 'chromadb']\<close>, not the configured order; and of the list
  \<^verbatim>\<open>['weaviate', 'pinecone', 'weaviate']\<close> of length three the result has length one.
\<close>

lemma reversed_list_run:
  "vectorize_docs lib_ok environ0 (config0 []) (Opaque 0) [''chromadb'', ''weaviate''] world0 =
     (Inr [''weaviate'', ''chromadb''],
      snd (vectorize_docs lib_ok environ0 (config0 []) (Opaque 0) [''chromadb'', ''weaviate'']
             world0))"
  by (simp add: eval_defs)

theorem router_configured_order_counterexample:
  "fst (vectorize_docs lib_ok environ0 (config0 []) (Opaque 0) [''chromadb'', ''weaviate'']
          world0) = Inr [''weaviate'', ''chromadb''] \<and>
   fst (vectorize_docs lib_ok environ0 (config0 []) (Opaque 0) [''chromadb'', ''weaviate'']
          world0) \<noteq> Inr [''chromadb'', ''weaviate''] \<and>
   entered (new_events (vectorize_docs lib_ok environ0 (config0 []) (Opaque 0)
          [''chromadb'', ''weaviate'']) world0) =
     [(Weaviate, ''vectorize_docs''), (ChromaDB, ''vectorize_docs'')] \<and>
   map_sum id vdbs_processed
     (fst (process_query lib_ok environ0 (config0 [''chromadb'', ''weaviate'']) ''hello'' world0))
     = Inr [''weaviate'', ''chromadb''] \<and>
   fst (vectorize_docs lib_ok environ0 (config0 []) (Opaque 0)
          [''weaviate'', ''pinecone'', ''weaviate''] world0) = Inr [''weaviate'']"
  by (simp add: eval_defs new_events_def entered_def)

theorem router_invokes_enabled_backends_in_fixed_order_witness:
  "entered (new_events (vectorize_docs lib_ok environ0 (config0 []) (Opaque 0)
          [''chromadb'', ''weaviate'']) world0) =
     [(Weaviate, ''vectorize_docs''), (ChromaDB, ''vectorize_docs'')] \<and>
   [''weaviate'', ''chromadb''] \<noteq> [''chromadb'', ''weaviate'']"
  using router_invokes_enabled_backends_in_fixed_order[where L = lib_ok and environ = environ0
      and cfg = "config0 []" and docs = "Opaque 0" and vdbs = "[''chromadb'', ''weaviate'']"
      and s = world0 and ps = "[''weaviate'', ''chromadb'']"
      and s' = "snd (vectorize_docs lib_ok environ0 (config0 []) (Opaque 0)
                  [''chromadb'', ''weaviate''] world0)"]
    reversed_list_run
  by simp

section \<open>What a vectorize request returns\<close>

text \<open>
  What the code does for a vectorize request that returns: it has entered the ingestion entry
  point of each enabled backend in sequence, each of them has returned, each was handed the
  request's document batch, and the returned list names exactly the backends whose ingestion
  call completed.  The request returns when no library call raises and the configured language
  model hub is one \<^verbatim>\<open>set_rag_context\<close> knows; for any other hub it never returns, which is
  shown in the last section.
\<close>

theorem vectorize_docs_returns_completed_backends:
  "(vectorize_docs L environ cfg docs vdbs s = (Inr ps, s') \<longrightarrow>
      entered (new_events (vectorize_docs L environ cfg docs vdbs) s) =
        (if ''weaviate'' \<in> set vdbs then [(Weaviate, ''vectorize_docs'')] else []) @
        (if ''chromadb'' \<in> set vdbs then [(ChromaDB, ''vectorize_docs'')] else []) \<and>
      returned (new_events (vectorize_docs L environ cfg docs vdbs) s) =
        entered (new_events (vectorize_docs L environ cfg docs vdbs) s) \<and>
      indexed_batches (new_events (vectorize_docs L environ cfg docs vdbs) s) =
        replicate (length ps) docs \<and>
      ps = filter (\<lambda>b. b \<in> set vdbs) [''weaviate'', ''chromadb''] \<and>
      (''weaviate'' \<in> set ps \<longleftrightarrow>
         (Weaviate, ''vectorize_docs'') \<in>
           set (returned (new_events (vectorize_docs L environ cfg docs vdbs) s))) \<and>
      (''chromadb'' \<in> set ps \<longleftrightarrow>
         (ChromaDB, ''vectorize_docs'') \<in>
           set (returned (new_events (vectorize_docs L environ cfg docs vdbs) s))) \<and>
      set ps \<subseteq> {''weaviate'', ''chromadb''}) \<and>
   (answers L \<and> (hub (rag_llm cfg) = ''huggingface'' \<or> hub (rag_llm cfg) = ''openai'') \<longrightarrow>
      (\<exists>ps s'. vectorize_docs L environ cfg docs vdbs s = (Inr ps, s')))"
proof (intro conjI impI)
  assume run: "vectorize_docs L environ cfg docs vdbs s = (Inr ps, s')"
  let ?evs = "new_events (vectorize_docs L environ cfg docs vdbs) s"
  let ?X = "(if ''weaviate'' \<in> set vdbs then [(Weaviate, ''vectorize_docs'')] else []) @
        (if ''chromadb'' \<in> set vdbs then [(ChromaDB, ''vectorize_docs'')] else [])"
  have e: "entered ?evs = ?X"
    unfolding entered_def by (rule observes_new_events(3)[OF vectorize_docs_entry run])
  have x: "returned ?evs = ?X"
    unfolding returned_def by (rule observes_new_events(3)[OF vectorize_docs_exit run])
  have b: "indexed_batches ?evs =
      (if ''weaviate'' \<in> set vdbs then [docs] else []) @
      (if ''chromadb'' \<in> set vdbs then [docs] else [])"
    unfolding indexed_batches_def
    by (rule observes_new_events(3)[OF vectorize_docs_indexed_batch run])
  have p: "ps = filter (\<lambda>b. b \<in> set vdbs) [''weaviate'', ''chromadb'']"
    by (rule vectorize_docs_Inr[OF run])
  show "entered ?evs = ?X" by (rule e)
  show "returned ?evs = entered ?evs" using e x by simp
  show "indexed_batches ?evs = replicate (length ps) docs"
    using b p by simp
  show "ps = filter (\<lambda>b. b \<in> set vdbs) [''weaviate'', ''chromadb'']" by (rule p)
  show "''weaviate'' \<in> set ps \<longleftrightarrow> (Weaviate, ''vectorize_docs'') \<in> set (returned ?evs)"
    using x p by simp
  show "''chromadb'' \<in> set ps \<longleftrightarrow> (ChromaDB, ''vectorize_docs'') \<in> set (returned ?evs)"
    using x p by simp
  show "set ps \<subseteq> {''weaviate'', ''chromadb''}"
    using p by auto
next
  assume "answers L \<and> (hub (rag_llm cfg) = ''huggingface'' \<or> hub (rag_llm cfg) = ''openai'')"
  then have "returns (vectorize_docs L environ cfg docs vdbs)"
    using routers_return(1) by blast
  then show "\<exists>ps s'. vectorize_docs L environ cfg docs vdbs s = (Inr ps, s')"
    unfolding returns_def by blast
qed

text \<open>
  With only chromadb enabled, the example library and configuration: the request returns
  \<^verbatim>\<open>['chromadb']\<close>, and the chromadb ingestion is the one entry point entered and returned.
\<close>

lemma lib_ok_answers: "answers lib_ok"
  by (simp add: answers_def lib_ok_def)

theorem vectorize_docs_returns_completed_backends_witness:
  "fst (vectorize_docs lib_ok environ0 (config0 []) (Opaque 0) [''chromadb''] world0) =
     Inr [''chromadb''] \<and>
   returned (new_events (vectorize_docs lib_ok environ0 (config0 []) (Opaque 0) [''chromadb''])
     world0) = [(ChromaDB, ''vectorize_docs'')] \<and>
   indexed_batches (new_events
     (vectorize_docs lib_ok environ0 (config0 []) (Opaque 0) [''chromadb'']) world0) =
     [Opaque 0]"
proof -
  have hub: "hub (rag_llm (config0 [])) = ''huggingface'' \<or>
             hub (rag_llm (config0 [])) = ''openai''"
    by (simp add: config0_def)
  note claim = vectorize_docs_returns_completed_backends[where L = lib_ok
      and environ = environ0 and cfg = "config0 []" and docs = "Opaque 0"
      and vdbs = "[''chromadb'']" and s = world0]
  from claim lib_ok_answers hub
  obtain ps s' where run:
    "vectorize_docs lib_ok environ0 (config0 []) (Opaque 0) [''chromadb''] world0 = (Inr ps, s')"
    by blast
  from claim[of ps s'] run
  have "ps = filter (\<lambda>b. b \<in> set [''chromadb'']) [''weaviate'', ''chromadb'']"
    and "returned (new_events (vectorize_docs lib_ok environ0 (config0 []) (Opaque 0)
           [''chromadb'']) world0) =
         entered (new_events (vectorize_docs lib_ok environ0 (config0 []) (Opaque 0)
           [''chromadb'']) world0)"
    and "entered (new_events (vectorize_docs lib_ok environ0 (config0 []) (Opaque 0)
           [''chromadb'']) world0) =
        (if ''weaviate'' \<in> set [''chromadb''] then [(Weaviate, ''vectorize_docs'')] else []) @
        (if ''chromadb'' \<in> set [''chromadb''] then [(ChromaDB, ''vectorize_docs'')] else [])"
    and "indexed_batches (new_events (vectorize_docs lib_ok environ0 (config0 []) (Opaque 0)
           [''chromadb'']) world0) = replicate (length ps) (Opaque 0)"
    by blast+
  with run show ?thesis by simp
qed

section \<open>Answers and the backends that gave them\<close>

text \<open>
  Claim C6.  In the record a query request returns, \<^verbatim>\<open>responses\<close> and \<^verbatim>\<open>vdbs_processed\<close> have
  the same length, and the \<^verbatim>\<open>vector_store\<close> of the answer at each index is the backend name
  at that index.
\<close>

theorem responses_aligned_with_backends:
  assumes "process_query L environ cfg q s = (Inr r, s')"
  shows "length (responses r) = length (vdbs_processed r) \<and>
         (\<forall>i<length (responses r). vector_store (responses r ! i) = vdbs_processed r ! i)"
proof -
  have m: "map vector_store (responses r) = vdbs_processed r"
    by (rule process_query_Inr(3)[OF assms])
  then have "length (responses r) = length (vdbs_processed r)"
    by (metis length_map)
  moreover have "\<forall>i<length (responses r). vector_store (responses r ! i) = vdbs_processed r ! i"
    using m by (metis nth_map)
  ultimately show ?thesis by simp
qed

text \<open>A query with both backends enabled, the example library and configuration.\<close>

lemma example_query_run:
  "process_query lib_ok environ0 (config0 [''weaviate'', ''chromadb'']) ''hello'' world0 =
     (Inr \<lparr>prompt = ''hello'', vdbs_processed = [''weaviate'', ''chromadb''],
           responses =
             [\<lparr>vector_store = ''weaviate'', response = Opaque 21, elapsed = Opaque 22\<rparr>,
              \<lparr>vector_store = ''chromadb'', response = Opaque 32, elapsed = Opaque 33\<rparr>],
           elapsed = Opaque 35\<rparr>,
      snd (process_query lib_ok environ0 (config0 [''weaviate'', ''chromadb'']) ''hello''
             world0))"
  by (simp add: eval_defs)

theorem responses_aligned_with_backends_witness:
  "fst (process_query lib_ok environ0 (config0 [''weaviate'', ''chromadb'']) ''hello'' world0) =
     Inr \<lparr>prompt = ''hello'', vdbs_processed = [''weaviate'', ''chromadb''],
          responses =
            [\<lparr>vector_store = ''weaviate'', response = Opaque 21, elapsed = Opaque 22\<rparr>,
             \<lparr>vector_store = ''chromadb'', response = Opaque 32, elapsed = Opaque 33\<rparr>],
          elapsed = Opaque 35\<rparr> \<and>
   length [\<lparr>vector_store = ''weaviate'', response = Opaque 21, elapsed = Opaque 22\<rparr>,
           \<lparr>vector_store = ''chromadb'', response = Opaque 32, elapsed = Opaque 33\<rparr>] =
     length [''weaviate'', ''chromadb''] \<and>
   vector_store (\<lparr>vector_store = ''chromadb'', response = Opaque 32, elapsed = Opaque 33\<rparr>) =
     [''weaviate'', ''chromadb''] ! 1"
proof -
  have "fst (process_query lib_ok environ0 (config0 [''weaviate'', ''chromadb'']) ''hello''
          world0) =
     Inr \<lparr>prompt = ''hello'', vdbs_processed = [''weaviate'', ''chromadb''],
          responses =
            [\<lparr>vector_store = ''weaviate'', response = Opaque 21, elapsed = Opaque 22\<rparr>,
             \<lparr>vector_store = ''chromadb'', response = Opaque 32, elapsed = Opaque 33\<rparr>],
          elapsed = Opaque 35\<rparr>"
    by (rule arg_cong[OF example_query_run, of fst, simplified])
  moreover from responses_aligned_with_backends[OF example_query_run]
  have "length [\<lparr>vector_store = ''weaviate'', response = Opaque 21, elapsed = Opaque 22\<rparr>,
           \<lparr>vector_store = ''chromadb'', response = Opaque 32, elapsed = Opaque 33\<rparr>] =
     length [''weaviate'', ''chromadb''] \<and>
   vector_store (\<lparr>vector_store = ''chromadb'', response = Opaque 32, elapsed = Opaque 33\<rparr>) =
     [''weaviate'', ''chromadb''] ! 1"
    by simp
  ultimately show ?thesis by (rule conjI)
qed

section \<open>What a query request returns\<close>

lemma Weaviate_process_query_answered:
  assumes "Weaviate_process_query L environ q s = (Inr a, s')"
  shows "\<exists>seg. trace s' = trace s @ seg \<and> answered Weaviate ''weaviate'' q seg a"
proof -
  from assms obtain start client store index engine result
    where tr: "trace s' = trace s @
        [Entered Weaviate ''process_query'', Called Now (Inr start)] @
        [Called (Weaviate_Client (''http://'' @ format_opt (environ ''WEAVIATE_HOST'') @ '':'' @
            format_opt (environ ''WEAVIATE_PORT''))) (Inr client),
         Called (WeaviateVectorStore client (environ ''LFAI_INDEX_NAME'')) (Inr store)] @
        [Called (VectorStoreIndex_from_vector_store store) (Inr index),
         Called (As_query_engine index) (Inr engine),
         Called (Query engine q) (Inr result),
         Called (Getattr result ''response'') (Inr (response a)),
         Called (Get_elapsed start) (Inr (answer.elapsed a)),
         Returned Weaviate ''process_query'']"
      and lab: "vector_store a = ''weaviate''"
    unfolding backend_defs py_bind_return
    by (auto simp: Inr_simps)
  have "answered Weaviate ''weaviate'' q
      ([Entered Weaviate ''process_query'', Called Now (Inr start)] @
        [Called (Weaviate_Client (''http://'' @ format_opt (environ ''WEAVIATE_HOST'') @ '':'' @
            format_opt (environ ''WEAVIATE_PORT''))) (Inr client),
         Called (WeaviateVectorStore client (environ ''LFAI_INDEX_NAME'')) (Inr store)] @
        [Called (VectorStoreIndex_from_vector_store store) (Inr index),
         Called (As_query_engine index) (Inr engine),
         Called (Query engine q) (Inr result),
         Called (Getattr result ''response'') (Inr (response a)),
         Called (Get_elapsed start) (Inr (answer.elapsed a)),
         Returned Weaviate ''process_query'']) a"
    unfolding answered_def
    apply (rule exI[of _ start])
    apply (rule exI[of _ "[Called (Weaviate_Client (''http://'' @
            format_opt (environ ''WEAVIATE_HOST'') @ '':'' @
            format_opt (environ ''WEAVIATE_PORT''))) (Inr client),
         Called (WeaviateVectorStore client (environ ''LFAI_INDEX_NAME'')) (Inr store)]"])
    apply (rule exI[of _ store], rule exI[of _ index], rule exI[of _ engine],
        rule exI[of _ result])
    apply (simp add: lab entered_def returned_def)
    done
  with tr show ?thesis by blast
qed

lemma ChromaDB_process_query_answered:
  assumes "ChromaDB_process_query L environ q s = (Inr a, s')"
  shows "\<exists>seg. trace s' = trace s @ seg \<and> answered ChromaDB ''chromadb'' q seg a"
proof -
  from assms obtain start client collection store index engine result
    where tr: "trace s' = trace s @
        [Entered ChromaDB ''process_query'', Called Now (Inr start)] @
        [Called (Chromadb_HttpClient (environ ''CHROMADB_HOST'') (environ ''CHROMADB_PORT''))
           (Inr client),
         Called (Get_or_create_collection client (environ ''LFAI_INDEX_NAME''))
           (Inr collection),
         Called (ChromaVectorStore collection) (Inr store)] @
        [Called (VectorStoreIndex_from_vector_store store) (Inr index),
         Called (As_query_engine index) (Inr engine),
         Called (Query engine q) (Inr result),
         Called (Getattr result ''response'') (Inr (response a)),
         Called (Get_elapsed start) (Inr (answer.elapsed a)),
         Returned ChromaDB ''process_query'']"
      and lab: "vector_store a = ''chromadb''"
    unfolding backend_defs py_bind_return
    by (auto simp: Inr_simps)
  have "answered ChromaDB ''chromadb'' q
      ([Entered ChromaDB ''process_query'', Called Now (Inr start)] @
        [Called (Chromadb_HttpClient (environ ''CHROMADB_HOST'') (environ ''CHROMADB_PORT''))
           (Inr client),
         Called (Get_or_create_collection client (environ ''LFAI_INDEX_NAME''))
           (Inr collection),
         Called (ChromaVectorStore collection) (Inr store)] @
        [Called (VectorStoreIndex_from_vector_store store) (Inr index),
         Called (As_query_engine index) (Inr engine),
         Called (Query engine q) (Inr result),
         Called (Getattr result ''response'') (Inr (response a)),
         Called (Get_elapsed start) (Inr (answer.elapsed a)),
         Returned ChromaDB ''process_query'']) a"
    unfolding answered_def
    apply (rule exI[of _ start])
    apply (rule exI[of _ "[Called (Chromadb_HttpClient (environ ''CHROMADB_HOST'')
            (environ ''CHROMADB_PORT'')) (Inr client),
         Called (Get_or_create_collection client (environ ''LFAI_INDEX_NAME''))
           (Inr collection),
         Called (ChromaVectorStore collection) (Inr store)]"])
    apply (rule exI[of _ store], rule exI[of _ index], rule exI[of _ engine],
        rule exI[of _ result])
    apply (simp add: lab entered_def returned_def)
    done
  with tr show ?thesis by blast
qed

text \<open>One \<^verbatim>\<open>if\<close> statement of the query router.\<close>

lemma guarded_query_step:
  assumes step:
      "(if b then py_bind P (\<lambda>response. py_return (vp @ [n], rs @ [response]))
        else py_return (vp, rs)) s1 = (Inr (vp', rs'), s2)"
    and P: "\<And>a t t'. P t = (Inr a, t') \<Longrightarrow>
              \<exists>seg. trace t' = trace t @ seg \<and> answered c n q seg a"
  shows "\<exists>segs as. trace s2 = trace s1 @ concat segs \<and>
           vp' = vp @ (if b then [n] else []) \<and> rs' = rs @ as \<and>
           length segs = length as \<and> length as = (if b then 1 else 0) \<and>
           (\<forall>i<length as. answered c n q (segs ! i) (as ! i))"
proof (cases b)
  case True
  with step obtain a where a: "P s1 = (Inr a, s2)" and v: "vp' = vp @ [n]" "rs' = rs @ [a]"
    by (auto simp: Inr_simps)
  from P[OF a] obtain seg where "trace s2 = trace s1 @ seg" "answered c n q seg a"
    by blast
  with True v show ?thesis
    by (intro exI[of _ "[seg]"] exI[of _ "[a]"]) simp
next
  case False
  with step have "s2 = s1" "vp' = vp" "rs' = rs"
    by (auto simp: Inr_simps)
  with False show ?thesis
    by (intro exI[of _ "[]"]) simp
qed

lemma set_rag_context_setup:
  assumes "set_rag_context L cfg s = (Inr u, s0)"
  shows "\<exists>setup. trace s0 = trace s @ setup \<and> entered setup = []"
proof -
  have o: "observes entry [] (set_rag_context L cfg)"
    by (rule set_rag_context_observes) simp
  from observes_new_events(1)[OF o, of s] observes_new_events(3)[OF o assms] assms
  show ?thesis by (auto simp: entered_def)
qed

lemma process_query_steps:
  assumes "process_query L environ cfg q s = (Inr r, s')"
  obtains u s0 start vpw rsw s2 vpc rsc s3 el where
      "set_rag_context L cfg s = (Inr u, s0)"
      "(if ''weaviate'' \<in> set (rag_vector_stores cfg)
       then py_bind (Weaviate_process_query L environ q)
              (\<lambda>response. py_return ([] @ [''weaviate''], [] @ [response]))
       else py_return ([], []))
        (s0\<lparr>trace := trace s0 @ [Called Now (Inr start)]\<rparr>) = (Inr (vpw, rsw), s2)"
      "(if ''chromadb'' \<in> set (rag_vector_stores cfg)
       then py_bind (ChromaDB_process_query L environ q)
              (\<lambda>response. py_return (vpw @ [''chromadb''], rsw @ [response]))
       else py_return (vpw, rsw)) s2 = (Inr (vpc, rsc), s3)"
      "r = \<lparr>prompt = q, vdbs_processed = vpc, responses = rsc, elapsed = el\<rparr>"
      "trace s' = trace s3 @ [Called (Get_elapsed start) (Inr el)]"
proof -
  from assms obtain u s0 start p2 s2 p3 s3 el where
      1: "set_rag_context L cfg s = (Inr u, s0)"
      and 2: "(if ''weaviate'' \<in> set (rag_vector_stores cfg)
       then py_bind (Weaviate_process_query L environ q)
              (\<lambda>response. py_return ([] @ [''weaviate''], [] @ [response]))
       else py_return ([], []))
        (s0\<lparr>trace := trace s0 @ [Called Now (Inr start)]\<rparr>) = (Inr p2, s2)"
      and 3: "(case p2 of (vp, rs) \<Rightarrow>
         py_bind
          (if ''chromadb'' \<in> set (rag_vector_stores cfg)
           then py_bind (ChromaDB_process_query L environ q)
              (\<lambda>response. py_return (vp @ [''chromadb''], rs @ [response]))
           else py_return (vp, rs))
          (\<lambda>(vdbs_processed, responses).
             py_bind (lib L (Get_elapsed start)) (\<lambda>elapsed.
             py_return \<lparr>prompt = q, vdbs_processed = vdbs_processed, responses = responses,
               elapsed = elapsed\<rparr>))) s2 = (Inr r, s')"
    unfolding process_query_def Let_def py_bind_Inr lib_Inr
    by blast
  obtain vpw rsw where p2: "p2 = (vpw, rsw)" by (cases p2)
  from 3 obtain p3 s3 where
      4: "(if ''chromadb'' \<in> set (rag_vector_stores cfg)
       then py_bind (ChromaDB_process_query L environ q)
              (\<lambda>response. py_return (vpw @ [''chromadb''], rsw @ [response]))
       else py_return (vpw, rsw)) s2 = (Inr p3, s3)"
      and 5: "(case p3 of (vp, rs) \<Rightarrow>
             py_bind (lib L (Get_elapsed start)) (\<lambda>elapsed.
             py_return \<lparr>prompt = q, vdbs_processed = vp, responses = rs,
               elapsed = elapsed\<rparr>)) s3 = (Inr r, s')"
    unfolding p2 prod.case py_bind_Inr
    by blast
  obtain vpc rsc where p3: "p3 = (vpc, rsc)" by (cases p3)
  from 5 obtain el where
      6: "r = \<lparr>prompt = q, vdbs_processed = vpc, responses = rsc, elapsed = el\<rparr>"
      and 7: "trace s' = trace s3 @ [Called (Get_elapsed start) (Inr el)]"
    unfolding p3 prod.case
    by (auto simp: Inr_simps)
  from 1 2 4 6 7 show thesis
    unfolding p2 p3 by (rule that)
qed

text \<open>
  What the code does for a query request that returns: it has run \<^verbatim>\<open>set_rag_context\<close>, taken
  its start time, run the query entry point of each enabled backend in sequence, and taken the
  elapsed time: the record holds the prompt, the names of the backends consulted, one answer
  for each of them in the same order (each labelled with its backend, carrying the response of
  that backend's own query and the elapsed time measured from that backend's own start time)
  and the total elapsed time measured from the request's start time.  The request returns when
  no library call raises and the configured language model hub is one \<^verbatim>\<open>set_rag_context\<close>
  knows; for any other hub it never returns, which is shown in the last section.
\<close>

theorem process_query_collects_answers:
  fixes cfg :: model_config
  defines "backends \<equiv>
    filter (\<lambda>(c, b). b \<in> set (rag_vector_stores cfg))
      [(Weaviate, ''weaviate''), (ChromaDB, ''chromadb'')]"
  shows
    "(process_query L environ cfg q s = (Inr r, s') \<longrightarrow>
        (\<exists>setup start segs.
           trace s' = trace s @ setup @ [Called Now (Inr start)] @ concat segs @
                      [Called (Get_elapsed start) (Inr (query_result.elapsed r))] \<and>
           entered setup = [] \<and>
           prompt r = q \<and>
           vdbs_processed r = map snd backends \<and>
           length segs = length backends \<and>
           length (responses r) = length backends \<and>
           (\<forall>i<length backends.
              answered (fst (backends ! i)) (snd (backends ! i)) q (segs ! i)
                (responses r ! i)))) \<and>
     (answers L \<and> (hub (rag_llm cfg) = ''huggingface'' \<or> hub (rag_llm cfg) = ''openai'') \<longrightarrow>
        (\<exists>r s'. process_query L environ cfg q s = (Inr r, s')))"
proof (intro conjI impI)
  assume run: "process_query L environ cfg q s = (Inr r, s')"
  let ?w = "''weaviate'' \<in> set (rag_vector_stores cfg)"
  let ?c = "''chromadb'' \<in> set (rag_vector_stores cfg)"
  from run obtain u s0 start vpw rsw s2 vpc rsc s3 el
    where sr: "set_rag_context L cfg s = (Inr u, s0)"
      and w: "(if ?w
         then py_bind (Weaviate_process_query L environ q)
                (\<lambda>response. py_return ([] @ [''weaviate''], [] @ [response]))
         else py_return ([], []))
          (s0\<lparr>trace := trace s0 @ [Called Now (Inr start)]\<rparr>) = (Inr (vpw, rsw), s2)"
      and c: "(if ?c
         then py_bind (ChromaDB_process_query L environ q)
                (\<lambda>response. py_return (vpw @ [''chromadb''], rsw @ [response]))
         else py_return (vpw, rsw)) s2 = (Inr (vpc, rsc), s3)"
      and r: "r = \<lparr>prompt = q, vdbs_processed = vpc, responses = rsc, elapsed = el\<rparr>"
      and fin: "trace s' = trace s3 @ [Called (Get_elapsed start) (Inr el)]"
    by (rule process_query_steps)
  from set_rag_context_setup[OF sr]
  obtain pre where pre: "trace s0 = trace s @ pre" "entered pre = []"
    by blast
  have "\<exists>segs as.
      trace s2 = trace (s0\<lparr>trace := trace s0 @ [Called Now (Inr start)]\<rparr>) @ concat segs \<and>
      vpw = [] @ (if ?w then [''weaviate''] else []) \<and> rsw = [] @ as \<and>
      length segs = length as \<and> length as = (if ?w then 1 else 0) \<and>
      (\<forall>i<length as. answered Weaviate ''weaviate'' q (segs ! i) (as ! i))"
    by (rule guarded_query_step[OF w]) (rule Weaviate_process_query_answered)
  then obtain segsw asw
    where tw: "trace s2 = trace (s0\<lparr>trace := trace s0 @ [Called Now (Inr start)]\<rparr>) @
                 concat segsw"
      and vw: "vpw = [] @ (if ?w then [''weaviate''] else [])" "rsw = [] @ asw"
      and lw: "length segsw = length asw" "length asw = (if ?w then 1 else 0)"
      and aw: "\<forall>i<length asw. answered Weaviate ''weaviate'' q (segsw ! i) (asw ! i)"
    by blast
  have "\<exists>segs as.
      trace s3 = trace s2 @ concat segs \<and>
      vpc = vpw @ (if ?c then [''chromadb''] else []) \<and> rsc = rsw @ as \<and>
      length segs = length as \<and> length as = (if ?c then 1 else 0) \<and>
      (\<forall>i<length as. answered ChromaDB ''chromadb'' q (segs ! i) (as ! i))"
    by (rule guarded_query_step[OF c]) (rule ChromaDB_process_query_answered)
  then obtain segsc asc
    where tc: "trace s3 = trace s2 @ concat segsc"
      and vc: "vpc = vpw @ (if ?c then [''chromadb''] else [])" "rsc = rsw @ asc"
      and lc: "length segsc = length asc" "length asc = (if ?c then 1 else 0)"
      and ac: "\<forall>i<length asc. answered ChromaDB ''chromadb'' q (segsc ! i) (asc ! i)"
    by blast
  have tr: "trace s' = trace s @ pre @ [Called Now (Inr start)] @ concat (segsw @ segsc) @
      [Called (Get_elapsed start) (Inr (query_result.elapsed r))]"
    using fin tc tw pre r by simp
  have names: "vdbs_processed r = map snd backends"
    using r vw vc by (simp add: backends_def)
  have len: "length (segsw @ segsc) = length backends"
    "length (responses r) = length backends"
    using r vw vc lw lc by (simp_all add: backends_def)
  have each: "\<forall>i<length backends.
      answered (fst (backends ! i)) (snd (backends ! i)) q ((segsw @ segsc) ! i)
        (responses r ! i)"
  proof (intro allI impI)
    fix i assume i: "i < length backends"
    show "answered (fst (backends ! i)) (snd (backends ! i)) q ((segsw @ segsc) ! i)
        (responses r ! i)"
    proof (cases "?w")
      case True
      note W = True
      show ?thesis
      proof (cases "i = 0")
        case True
        with W aw lw r vw vc show ?thesis
          by (simp add: backends_def nth_append)
      next
        case False
        with W i have C: "?c" and i1: "i = 1"
          by (auto simp: backends_def split: if_splits)
        with W ac lc lw r vw vc show ?thesis
          by (simp add: backends_def nth_append)
      qed
    next
      case False
      with i have C: "?c" and i0: "i = 0"
        by (auto simp: backends_def split: if_splits)
      with False ac lc lw r vw vc show ?thesis
        by (simp add: backends_def nth_append)
    qed
  qed
  from tr pre(2) r names len each
  show "\<exists>setup start segs.
           trace s' = trace s @ setup @ [Called Now (Inr start)] @ concat segs @
                      [Called (Get_elapsed start) (Inr (query_result.elapsed r))] \<and>
           entered setup = [] \<and>
           prompt r = q \<and>
           vdbs_processed r = map snd backends \<and>
           length segs = length backends \<and>
           length (responses r) = length backends \<and>
           (\<forall>i<length backends.
              answered (fst (backends ! i)) (snd (backends ! i)) q (segs ! i)
                (responses r ! i))"
    by (intro exI[of _ pre] exI[of _ start] exI[of _ "segsw @ segsc"]) simp
next
  assume "answers L \<and> (hub (rag_llm cfg) = ''huggingface'' \<or> hub (rag_llm cfg) = ''openai'')"
  then have "returns (process_query L environ cfg q)"
    using routers_return(2) by blast
  then show "\<exists>r s'. process_query L environ cfg q s = (Inr r, s')"
    unfolding returns_def by blast
qed

text \<open>
  A query with both backends enabled, the example library and configuration: the request
  returns, its trace is the set-up, the start time, the weaviate run, the chromadb run and the
  total elapsed time, and the two answers are those of the two runs.
\<close>

theorem process_query_collects_answers_witness:
  "\<exists>pre start segs.
     trace (snd (process_query lib_ok environ0 (config0 [''weaviate'', ''chromadb''])
              ''hello'' world0)) =
       trace world0 @ pre @ [Called Now (Inr start)] @ concat segs @
       [Called (Get_elapsed start) (Inr (Opaque 35))] \<and>
     length segs = 2 \<and>
     answered Weaviate ''weaviate'' ''hello'' (segs ! 0)
       \<lparr>vector_store = ''weaviate'', response = Opaque 21, elapsed = Opaque 22\<rparr> \<and>
     answered ChromaDB ''chromadb'' ''hello'' (segs ! 1)
       \<lparr>vector_store = ''chromadb'', response = Opaque 32, elapsed = Opaque 33\<rparr>"
proof -
  let ?cfg = "config0 [''weaviate'', ''chromadb'']"
  let ?r = "\<lparr>prompt = ''hello'', vdbs_processed = [''weaviate'', ''chromadb''],
           responses =
             [\<lparr>vector_store = ''weaviate'', response = Opaque 21, elapsed = Opaque 22\<rparr>,
              \<lparr>vector_store = ''chromadb'', response = Opaque 32, elapsed = Opaque 33\<rparr>],
           elapsed = Opaque 35\<rparr>"
  let ?s' = "snd (process_query lib_ok environ0 ?cfg ''hello'' world0)"
  have hub: "hub (rag_llm ?cfg) = ''huggingface'' \<or> hub (rag_llm ?cfg) = ''openai''"
    by (simp add: config0_def)
  have backends: "filter (\<lambda>(c, b). b \<in> set (rag_vector_stores ?cfg))
      [(Weaviate, ''weaviate''), (ChromaDB, ''chromadb'')] =
      [(Weaviate, ''weaviate''), (ChromaDB, ''chromadb'')]"
    by (simp add: config0_def)
  note claim = process_query_collects_answers[where L = lib_ok and environ = environ0
      and cfg = ?cfg and q = "''hello''" and s = world0 and r = ?r and s' = ?s']
  from claim lib_ok_answers hub
  have "\<exists>r s'. process_query lib_ok environ0 ?cfg ''hello'' world0 = (Inr r, s')"
    by blast
  from claim[THEN conjunct1, rule_format, OF example_query_run, unfolded backends]
  obtain pre start segs where
    tr: "trace ?s' = trace world0 @ pre @ [Called Now (Inr start)] @ concat segs @
           [Called (Get_elapsed start) (Inr (query_result.elapsed ?r))]"
    and len: "length segs = length [(Weaviate, ''weaviate''), (ChromaDB, ''chromadb'')]"
    and each: "\<forall>i<length [(Weaviate, ''weaviate''), (ChromaDB, ''chromadb'')].
                 answered (fst ([(Weaviate, ''weaviate''), (ChromaDB, ''chromadb'')] ! i))
                 (snd ([(Weaviate, ''weaviate''), (ChromaDB, ''chromadb'')] ! i)) ''hello''
                 (segs ! i) (responses ?r ! i)"
    by blast
  from each[rule_format, of 0] each[rule_format, of 1]
  have "answered Weaviate ''weaviate'' ''hello'' (segs ! 0)
       \<lparr>vector_store = ''weaviate'', response = Opaque 21, elapsed = Opaque 22\<rparr>"
    and "answered ChromaDB ''chromadb'' ''hello'' (segs ! 1)
       \<lparr>vector_store = ''chromadb'', response = Opaque 32, elapsed = Opaque 33\<rparr>"
    by simp_all
  with tr len show ?thesis
    by (intro exI[of _ pre] exI[of _ start] exI[of _ segs]) simp
qed

section \<open>A language model hub that \<^verbatim>\<open>set_rag_context\<close> does not know\<close>

text \<open>
  \<^verbatim>\<open>set_rag_context\<close> handles a hub that is neither \<^verbatim>\<open>huggingface\<close> nor \<^verbatim>\<open>openai\<close> in an
  \<^verbatim>\<open>else\<close> branch of its own (\<^verbatim>\<open>llm = None\<close>), but assigns \<^verbatim>\<open>llm_model_key\<close> in the other two
  branches only, and reads it in the f-string of the log line.  For such a hub it never
  returns, whatever the libraries do, and so neither router does; no backend entry point is
  entered.
\<close>

lemma set_rag_context_unknown_hub:
  assumes "hub (rag_llm cfg) \<noteq> ''huggingface''" and "hub (rag_llm cfg) \<noteq> ''openai''"
  shows "set_rag_context L cfg s \<noteq> (Inr u, s')"
proof
  assume "set_rag_context L cfg s = (Inr u, s')"
  then show False
    using assms unfolding set_rag_context_def Let_def
    by (simp add: py_bind_return) (auto simp: Inr_simps)
qed

lemma routers_unknown_hub:
  assumes "hub (rag_llm cfg) \<noteq> ''huggingface''" and "hub (rag_llm cfg) \<noteq> ''openai''"
  shows "process_query L environ cfg q s \<noteq> (Inr r, s')"
    and "vectorize_docs L environ cfg docs vdbs s \<noteq> (Inr ps, s')"
  using set_rag_context_unknown_hub[OF assms]
  unfolding process_query_def vectorize_docs_def
  by (auto simp: py_bind_Inr)

lemma unknown_hub_no_backend:
  assumes "hub (rag_llm cfg) \<noteq> ''huggingface''" and "hub (rag_llm cfg) \<noteq> ''openai''"
  shows "entered (new_events (process_query L environ cfg q) s) = []"
    and "entered (new_events (vectorize_docs L environ cfg docs vdbs) s) = []"
proof -
  obtain e s0 where sr: "set_rag_context L cfg s = (Inl e, s0)"
    using set_rag_context_unknown_hub[OF assms, of L s]
    by (cases "set_rag_context L cfg s"; cases "fst (set_rag_context L cfg s)") auto
  have o: "observes entry [] (set_rag_context L cfg)"
    by (rule set_rag_context_observes) simp
  from observes_new_events(2)[OF o, of s]
  have "entered (new_events (set_rag_context L cfg) s) = []"
    by (simp add: entered_def)
  moreover have "new_events (process_query L environ cfg q) s =
      new_events (set_rag_context L cfg) s"
    using sr by (simp add: new_events_def process_query_def py_bind_def)
  moreover have "new_events (vectorize_docs L environ cfg docs vdbs) s =
      new_events (set_rag_context L cfg) s"
    using sr by (simp add: new_events_def vectorize_docs_def py_bind_def)
  ultimately show "entered (new_events (process_query L environ cfg q) s) = []"
    and "entered (new_events (vectorize_docs L environ cfg docs vdbs) s) = []"
    by simp_all
qed

text \<open>
  Claim C2 says that for every prompt a query request invokes each enabled backend's query
  entry point in sequence and returns the record of answers.  The code does not for the hub
  \<^verbatim>\<open>local\<close>: with both backends enabled and every library call answered, the request raises
  \<^verbatim>\<open>UnboundLocalError\<close> for \<^verbatim>\<open>llm_model_key\<close> at the end of \<^verbatim>\<open>set_rag_context\<close>, having
  entered no backend.
\<close>

theorem process_query_unknown_hub_raises:
  "fst (process_query lib_ok environ0 (config_local [''weaviate'', ''chromadb'']) ''hello''
          world0) = Inl (UnboundLocalError ''llm_model_key'') \<and>
   trace (snd (process_query lib_ok environ0 (config_local [''weaviate'', ''chromadb''])
          ''hello'' world0)) =
     [Called (HuggingFaceEmbedding ''bge-small'') (Inr (Opaque 0)),
      Called (ServiceContext_from_defaults PyNone (Opaque 0)) (Inr (Opaque 1)),
      Called (Set_global_service_context (Opaque 1)) (Inr (Opaque 2)),
      Called (To_dict (Opaque 1)) (Inr (Opaque 3)),
      Called (Getitem (Opaque 3) ''llm'') (Inr (Opaque 4)),
      Called (Dict_get (Opaque 4) ''class_name'') (Inr (Opaque 5)),
      Called (Getitem (Opaque 3) ''llm'') (Inr (Opaque 6)),
      Called (Getattr (Opaque 6) ''get'') (Inr (Opaque 7))] \<and>
   entered (new_events (process_query lib_ok environ0
          (config_local [''weaviate'', ''chromadb'']) ''hello'') world0) = []"
  by (simp add: eval_defs new_events_def entered_def)

text \<open>
  Claim C3 says that for every document batch and enabled-backend list a vectorize request
  invokes each enabled backend's ingestion entry point in sequence and returns the list of the
  backends that processed the batch.  The code does not for the hub \<^verbatim>\<open>local\<close>: with both
  backends enabled and every library call answered, the request raises \<^verbatim>\<open>UnboundLocalError\<close>
  for \<^verbatim>\<open>llm_model_key\<close> at the end of \<^verbatim>\<open>set_rag_context\<close>, having entered no backend and
  indexed no batch.
\<close>

theorem vectorize_docs_unknown_hub_raises:
  "fst (vectorize_docs lib_ok environ0 (config_local []) (Opaque 0)
          [''weaviate'', ''chromadb''] world0) = Inl (UnboundLocalError ''llm_model_key'') \<and>
   trace (snd (vectorize_docs lib_ok environ0 (config_local []) (Opaque 0)
          [''weaviate'', ''chromadb''] world0)) =
     [Called (HuggingFaceEmbedding ''bge-small'') (Inr (Opaque 0)),
      Called (ServiceContext_from_defaults PyNone (Opaque 0)) (Inr (Opaque 1)),
      Called (Set_global_service_context (Opaque 1)) (Inr (Opaque 2)),
      Called (To_dict (Opaque 1)) (Inr (Opaque 3)),
      Called (Getitem (Opaque 3) ''llm'') (Inr (Opaque 4)),
      Called (Dict_get (Opaque 4) ''class_name'') (Inr (Opaque 5)),
      Called (Getitem (Opaque 3) ''llm'') (Inr (Opaque 6)),
      Called (Getattr (Opaque 6) ''get'') (Inr (Opaque 7))] \<and>
   entered (new_events (vectorize_docs lib_ok environ0 (config_local []) (Opaque 0)
          [''weaviate'', ''chromadb'']) world0) = [] \<and>
   indexed_batches (new_events (vectorize_docs lib_ok environ0 (config_local []) (Opaque 0)
          [''weaviate'', ''chromadb'']) world0) = []"
  by (simp add: eval_defs new_events_def entered_def indexed_batches_def)

end
